theory Spec2Isabelle
  imports Complex_Main
begin

section \<open>SimpleDB: normalising chat rows and rendering them\<close>

text \<open>
  A shallow embedding of \<^verbatim>\<open>src/simpledb.py\<close>: \<^verbatim>\<open>SimpleXDB._parse_message\<close>,
  \<^verbatim>\<open>SimpleXDB._format_timestamp\<close>, the row loops of \<^verbatim>\<open>get_contact_messages\<close> and
  \<^verbatim>\<open>get_group_messages\<close>, and the three exporters of \<^verbatim>\<open>ChatExporter\<close>.
\<close>

subsection \<open>Python values\<close>

text \<open>
  A Python \<^verbatim>\<open>str\<close> is a sequence of code points, and \<^verbatim>\<open>len\<close> and slicing count code
  points, so a string is a list of natural numbers. \<open>asc\<close> injects an ASCII literal.
\<close>

type_synonym str = "nat list"

definition asc :: "string \<Rightarrow> str" where
  "asc s = map of_char s"

text \<open>
  What \<^verbatim>\<open>json.loads\<close> returns: \<^verbatim>\<open>None\<close>, \<^verbatim>\<open>bool\<close>, \<^verbatim>\<open>int\<close>, a finite \<^verbatim>\<open>float\<close> (by its
  value), \<^verbatim>\<open>str\<close>, \<^verbatim>\<open>list\<close> and \<^verbatim>\<open>dict\<close>. A dict is the list of its items in
  insertion order; its keys are strings, each at most once.
\<close>

datatype json =
    JNull
  | JBool bool
  | JInt int
  | JFloat rat
  | JString str
  | JArray "json list"
  | JObject "(str \<times> json) list"

datatype error = ValueError | TypeError | AttributeError | UnicodeEncodeError

text \<open>\<^verbatim>\<open>datetime\<close>: the fields the two format calls of the source read.\<close>

record datetime =
  year :: nat
  month :: nat
  day :: nat
  hour :: nat
  minute :: nat
  second :: nat
  microsecond :: nat

text \<open>
  The library functions the source calls and does not define. \<open>json_loads\<close> and
  \<open>fromisoformat\<close> give \<open>None\<close> where the Python function raises; \<open>list_str\<close> is
  \<^verbatim>\<open>str\<close> of a list, \<open>str_upper\<close> is \<^verbatim>\<open>str.upper\<close>, \<open>float_repr\<close> is \<^verbatim>\<open>repr\<close> of a
  float and \<open>parse_float\<close> is \<^verbatim>\<open>float\<close> of a number token.
\<close>

record pylib =
  json_loads :: "str \<Rightarrow> json option"
  fromisoformat :: "str \<Rightarrow> datetime option"
  str_upper :: "str \<Rightarrow> str"
  list_str :: "json list \<Rightarrow> str"
  float_repr :: "rat \<Rightarrow> str"
  parse_float :: "str \<Rightarrow> rat option"

text \<open>Truthiness of a value, as \<^verbatim>\<open>if v:\<close> tests it.\<close>

fun truthy :: "json \<Rightarrow> bool" where
  "truthy JNull = False"
| "truthy (JBool b) = b"
| "truthy (JInt i) = (i \<noteq> 0)"
| "truthy (JFloat q) = (q \<noteq> 0)"
| "truthy (JString s) = (s \<noteq> [])"
| "truthy (JArray xs) = (xs \<noteq> [])"
| "truthy (JObject kvs) = (kvs \<noteq> [])"

text \<open>\<^verbatim>\<open>isinstance(v, dict)\<close>.\<close>

fun is_dict :: "json \<Rightarrow> bool" where
  "is_dict (JObject kvs) = True"
| "is_dict _ = False"

text \<open>
  \<^verbatim>\<open>v.get(key, default)\<close>: only a dict has the method; on any other value the
  attribute lookup raises \<^verbatim>\<open>AttributeError\<close>.
\<close>

fun py_get :: "json \<Rightarrow> str \<Rightarrow> json \<Rightarrow> error + json" where
  "py_get (JObject kvs) key dflt =
     Inr (case map_of kvs key of None \<Rightarrow> dflt | Some v \<Rightarrow> v)"
| "py_get _ key dflt = Inl AttributeError"

text \<open>Sequencing of steps that may raise: the first exception ends the block.\<close>

definition ebind :: "error + 'a \<Rightarrow> ('a \<Rightarrow> error + 'b) \<Rightarrow> error + 'b" where
  "ebind x f = (case x of Inl e \<Rightarrow> Inl e | Inr v \<Rightarrow> f v)"

text \<open>\<^verbatim>\<open>s.split(sep)\<close> and \<^verbatim>\<open>s.replace(old, new)\<close> for a one-character \<open>sep\<close>, \<open>old\<close>.\<close>

fun split :: "nat \<Rightarrow> str \<Rightarrow> str list" where
  "split sep [] = [[]]"
| "split sep (c # cs) =
     (if c = sep then [] # split sep cs
      else (case split sep cs of [] \<Rightarrow> [[c]] | w # ws \<Rightarrow> (c # w) # ws))"

definition replace :: "nat \<Rightarrow> str \<Rightarrow> str \<Rightarrow> str" where
  "replace old new s = concat (map (\<lambda>c. if c = old then new else [c]) s)"

text \<open>\<^verbatim>\<open>sep.join(xs)\<close>.\<close>

fun join :: "str \<Rightarrow> str list \<Rightarrow> str" where
  "join sep [] = []"
| "join sep [x] = x"
| "join sep (x # y # ys) = x @ sep @ join sep (y # ys)"

text \<open>\<^verbatim>\<open>str(n)\<close> for \<open>n \<ge> 0\<close>, and a decimal number zero-padded to a width.\<close>

fun str_nat :: "nat \<Rightarrow> str" where
  "str_nat n = (if n < 10 then [48 + n] else str_nat (n div 10) @ [48 + n mod 10])"

declare str_nat.simps [simp del]


text \<open>
  Writing a text to a file opened with \<^verbatim>\<open>encoding='utf-8'\<close>: a lone surrogate cannot
  be encoded, and \<^verbatim>\<open>f.write\<close> raises.
\<close>

definition is_surrogate :: "nat \<Rightarrow> bool" where
  "is_surrogate c = (0xD800 \<le> c \<and> c \<le> 0xDFFF)"

definition write_utf8 :: "str \<Rightarrow> error + str" where
  "write_utf8 s = (if list_ex is_surrogate s then Inl UnicodeEncodeError else Inr s)"

definition zpad :: "nat \<Rightarrow> nat \<Rightarrow> str" where
  "zpad w n = replicate (w - length (str_nat n)) 48 @ str_nat n"

text \<open>
  \<^verbatim>\<open>dt.strftime('%Y-%m-%d %H:%M:%S')\<close>, as CPython prints it through the C library
  (glibc): the year as a decimal number without padding, so a year below 1000 has fewer
  than four digits; the other fields zero-padded to two digits.
\<close>

definition strftime :: "datetime \<Rightarrow> str" where
  "strftime dt =
     str_nat (year dt) @ asc ''-'' @ zpad 2 (month dt) @ asc ''-'' @ zpad 2 (day dt) @
     asc '' '' @ zpad 2 (hour dt) @ asc '':'' @ zpad 2 (minute dt) @ asc '':'' @
     zpad 2 (second dt)"

subsection \<open>Rows and messages\<close>

text \<open>
  One row of the query of \<^verbatim>\<open>get_contact_messages\<close>: nine columns of
  \<^verbatim>\<open>chat_items\<close>. A text column holds a string or \<^verbatim>\<open>NULL\<close>, a flag column an
  integer or \<^verbatim>\<open>NULL\<close>; the key column is never \<^verbatim>\<open>NULL\<close>.
\<close>

record row =
  chat_item_id :: int
  item_ts :: "str option"
  item_sent :: "int option"
  item_text :: "str option"
  item_deleted :: "int option"
  item_content :: "str option"
  item_edited :: "int option"
  quoted_content :: "str option"
  quoted_sent :: "int option"

text \<open>
  The dict \<^verbatim>\<open>_parse_message\<close> returns, one field per key. \<open>content_type\<close> and the
  quote's text are whatever value the decoded descriptor holds.
\<close>

record quote_dict =
  quote_text :: json
  sent_by_me :: bool

record message =
  msg_id :: int
  timestamp :: str
  timestamp_raw :: "str option"
  sent :: bool
  sender :: str
  msg_text :: str
  deleted :: bool
  edited :: bool
  content_type :: json
  quote :: "quote_dict option"

text \<open>
  \<^verbatim>\<open>ChatExporter.CONTENT_ICONS\<close>; the glyphs are the code points of the source file's
  literals.
\<close>

definition CONTENT_ICONS :: "(str \<times> str) list" where
  "CONTENT_ICONS =
     [(asc ''text'', []),
      (asc ''image'', [0xF0, 0x178, 0x201C, 0xB7]),
      (asc ''file'', [0xF0, 0x178, 0x201C, 0x17D]),
      (asc ''voice'', [0xF0, 0x178, 0x17D, 0xA4]),
      (asc ''video'', [0xF0, 0x178, 0x17D, 0xAC]),
      (asc ''link'', [0xF0, 0x178, 0x201D, 0x2014])]"

text \<open>\<^verbatim>\<open>bool(v)\<close> of a flag column.\<close>

definition py_bool :: "int option \<Rightarrow> bool" where
  "py_bool v = (case v of None \<Rightarrow> False | Some i \<Rightarrow> i \<noteq> 0)"

subsection \<open>The normalizer\<close>

text \<open>
  \<^verbatim>\<open>_format_timestamp\<close>. \<open>format_timestamp_try\<close> is the body of the \<^verbatim>\<open>try\<close>, and the
  handler returns the raw string.
\<close>

definition clean :: "str \<Rightarrow> str" where
  "clean ts =
     (if of_char CHR ''.'' \<in> set ts then hd (split (of_char CHR ''.'') ts)
      else replace (of_char CHR ''Z'') [] ts)"

definition format_timestamp_try :: "pylib \<Rightarrow> str \<Rightarrow> error + str" where
  "format_timestamp_try L ts =
     (if of_char CHR ''T'' \<in> set ts then
        (case fromisoformat L (clean ts) of
           None \<Rightarrow> Inl ValueError
         | Some dt \<Rightarrow> Inr (strftime dt))
      else Inr ts)"

definition format_timestamp :: "pylib \<Rightarrow> str option \<Rightarrow> str" where
  "format_timestamp L ts =
     (case ts of
        None \<Rightarrow> []
      | Some s \<Rightarrow>
          if s = [] then []
          else (case format_timestamp_try L s of Inl e \<Rightarrow> s | Inr r \<Rightarrow> r))"

text \<open>
  The two \<^verbatim>\<open>try\<close> blocks of \<^verbatim>\<open>_parse_message\<close>. The default argument of the outer
  \<^verbatim>\<open>get\<close> is evaluated first.
\<close>

definition content_type_try :: "pylib \<Rightarrow> str \<Rightarrow> error + json" where
  "content_type_try L descriptor =
     (case json_loads L descriptor of
        None \<Rightarrow> Inl ValueError
      | Some content \<Rightarrow>
          ebind (py_get content (asc ''sndMsgContent'') (JObject [])) (\<lambda>dflt.
          ebind (py_get content (asc ''rcvMsgContent'') dflt) (\<lambda>msg_content.
            if is_dict msg_content then
              ebind (py_get msg_content (asc ''msgContent'') (JObject [])) (\<lambda>inner.
                py_get inner (asc ''type'') (JString (asc ''text'')))
            else Inr (JString (asc ''text'')))))"

definition parse_content_type :: "pylib \<Rightarrow> str option \<Rightarrow> json" where
  "parse_content_type L descriptor =
     (case descriptor of
        None \<Rightarrow> JString (asc ''text'')
      | Some s \<Rightarrow>
          if s = [] then JString (asc ''text'')
          else (case content_type_try L s of
                  Inl e \<Rightarrow> JString (asc ''text'')
                | Inr t \<Rightarrow> t))"

definition quote_try :: "pylib \<Rightarrow> str \<Rightarrow> int option \<Rightarrow> error + quote_dict option" where
  "quote_try L descriptor q_sent =
     (case json_loads L descriptor of
        None \<Rightarrow> Inl ValueError
      | Some qc \<Rightarrow>
          ebind (py_get qc (asc ''text'') (JString [])) (\<lambda>quote_text.
            if truthy quote_text then
              Inr (Some \<lparr>quote_text = quote_text, sent_by_me = py_bool q_sent\<rparr>)
            else Inr None))"

definition parse_quote :: "pylib \<Rightarrow> str option \<Rightarrow> int option \<Rightarrow> quote_dict option" where
  "parse_quote L descriptor q_sent =
     (case descriptor of
        None \<Rightarrow> None
      | Some s \<Rightarrow>
          if s = [] then None
          else (case quote_try L s q_sent of Inl e \<Rightarrow> None | Inr q \<Rightarrow> q))"

text \<open>
  \<^verbatim>\<open>_parse_message(row, contact_name)\<close>, declared \<^verbatim>\<open>Optional[Dict]\<close>: \<open>Inl\<close> would
  be an exception leaving the function, \<open>Inr None\<close> the value \<^verbatim>\<open>None\<close>.
\<close>

definition parse_message :: "pylib \<Rightarrow> row \<Rightarrow> str option \<Rightarrow> error + message option" where
  "parse_message L r contact_name =
     (let ctype = parse_content_type L (item_content r);
          q = parse_quote L (quoted_content r) (quoted_sent r)
      in Inr (Some \<lparr>
           msg_id = chat_item_id r,
           timestamp = format_timestamp L (item_ts r),
           timestamp_raw = item_ts r,
           sent = py_bool (item_sent r),
           sender = (if py_bool (item_sent r) then asc ''ME''
                     else (case contact_name of
                             None \<Rightarrow> asc ''CONTACT''
                           | Some n \<Rightarrow> if n = [] then asc ''CONTACT'' else n)),
           msg_text = (case item_text r of None \<Rightarrow> [] | Some t \<Rightarrow> t),
           deleted = py_bool (item_deleted r),
           edited = py_bool (item_edited r),
           content_type = ctype,
           quote = q\<rparr>))"

text \<open>
  The loop of \<^verbatim>\<open>get_contact_messages\<close> over the fetched rows: a message is appended
  when it is truthy, and a dict with ten keys is.
\<close>

fun get_contact_messages :: "pylib \<Rightarrow> row list \<Rightarrow> str option \<Rightarrow> error + message list" where
  "get_contact_messages L [] contact_name = Inr []"
| "get_contact_messages L (r # rs) contact_name =
     ebind (parse_message L r contact_name) (\<lambda>msg.
     ebind (get_contact_messages L rs contact_name) (\<lambda>messages.
       Inr (case msg of None \<Rightarrow> messages | Some m \<Rightarrow> m # messages)))"

text \<open>
  The loop of \<^verbatim>\<open>get_group_messages\<close>: each row carries a tenth column, the
  member's display name.
\<close>

fun get_group_messages :: "pylib \<Rightarrow> (row \<times> str option) list \<Rightarrow> error + message list" where
  "get_group_messages L [] = Inr []"
| "get_group_messages L ((r, member) # rs) =
     ebind (parse_message L r member) (\<lambda>msg.
     ebind (get_group_messages L rs) (\<lambda>messages.
       Inr (case msg of None \<Rightarrow> messages | Some m \<Rightarrow> m # messages)))"

subsection \<open>The exporters\<close>

text \<open>Glyphs of the source's literals, by code point.\<close>

definition box_h :: str where "box_h = [0xE2, 0x201D, 0x20AC]"
definition box_v :: str where "box_v = [0xE2, 0x201D, 0x201A]"
definition box_top :: str where "box_top = [0xE2, 0x201D, 0x152, 0xE2, 0x201D, 0x20AC]"
definition box_bottom :: str where "box_bottom = [0xE2, 0x201D, 0x201D, 0xE2, 0x201D, 0x20AC]"
definition reply_arrow :: str where "reply_arrow = [0xE2, 0x2020, 0xB3]"
definition quote_arrow :: str where "quote_arrow = [0xE2, 0x2020, 0xA9]"
definition bullet :: str where "bullet = [0xE2, 0x20AC, 0xA2]"
definition speech_icon :: str where "speech_icon = [0xF0, 0x178, 0x2019, 0xAC]"
definition page_icon :: str where "page_icon = [0xF0, 0x178, 0x201C, 0x201E]"

text \<open>\<^verbatim>\<open>s * n\<close> on strings.\<close>

definition str_times :: "str \<Rightarrow> nat \<Rightarrow> str" where
  "str_times s n = concat (replicate n s)"

text \<open>
  \<^verbatim>\<open>CONTENT_ICONS.get(key, default)\<close>: a list or a dict as key is unhashable; any other
  value that is not a string equals no key.
\<close>

definition icons_get :: "json \<Rightarrow> str \<Rightarrow> error + str" where
  "icons_get key dflt =
     (case key of
        JString s \<Rightarrow> Inr (case map_of CONTENT_ICONS s of None \<Rightarrow> dflt | Some icon \<Rightarrow> icon)
      | JArray xs \<Rightarrow> Inl TypeError
      | JObject kvs \<Rightarrow> Inl TypeError
      | _ \<Rightarrow> Inr dflt)"

text \<open>\<^verbatim>\<open>msg['content_type'].upper()\<close>: only a string has the method.\<close>

definition upper :: "pylib \<Rightarrow> json \<Rightarrow> error + str" where
  "upper L v = (case v of JString s \<Rightarrow> Inr (str_upper L s) | _ \<Rightarrow> Inl AttributeError)"

text \<open>
  The date of a message, as both \<^verbatim>\<open>export_txt\<close> and \<^verbatim>\<open>export_html\<close> compute it:
  \<^verbatim>\<open>msg['timestamp'].split(' ')[0] if msg['timestamp'] else ''\<close>.
\<close>

definition msg_date :: "message \<Rightarrow> str" where
  "msg_date msg = (if timestamp msg \<noteq> [] then hd (split 32 (timestamp msg)) else [])"

text \<open>\<^verbatim>\<open>_escape_html\<close>: five replacements, in this order.\<close>

definition escape_html :: "str \<Rightarrow> str" where
  \<open>escape_html s =
     replace (of_char CHR 0x0A) (asc ''<br>'')
       (replace (of_char CHR ''"'') (asc ''&quot;'')
         (replace (of_char CHR ''>'') (asc ''&gt;'')
           (replace (of_char CHR ''<'') (asc ''&lt;'')
             (replace (of_char CHR ''&'') (asc ''&amp;'') s))))\<close>

paragraph \<open>\<^verbatim>\<open>export_txt\<close>\<close>

definition txt_date_sep :: "str \<Rightarrow> str list" where
  "txt_date_sep current_date =
     [[], str_times box_h 25 @ asc '' '' @ current_date @ asc '' '' @ str_times box_h 25, []]"

definition txt_time :: "message \<Rightarrow> str" where
  "txt_time msg =
     (if 32 \<in> set (timestamp msg) then split 32 (timestamp msg) ! 1 else timestamp msg)"

definition txt_header :: "message \<Rightarrow> str" where
  "txt_header msg =
     box_top @ asc '' ['' @ txt_time msg @ asc ''] '' @ sender msg @
     (if edited msg then asc '' [edited]'' else [])"

text \<open>
  The quote line. Slicing a string or a list works; \<^verbatim>\<open>+=\<close> with \<^verbatim>\<open>'...'\<close> extends a
  list by three one-character strings, and the f-string then takes \<^verbatim>\<open>str\<close> of the list.
  Any other value cannot be sliced.
\<close>

definition txt_quote_preview :: "pylib \<Rightarrow> json \<Rightarrow> error + str" where
  "txt_quote_preview L t =
     (case t of
        JString s \<Rightarrow> Inr (take 50 s @ (if 50 < length s then asc ''...'' else []))
      | JArray xs \<Rightarrow>
          Inr (list_str L (take 50 xs @
                 (if 50 < length xs
                  then [JString (asc ''.''), JString (asc ''.''), JString (asc ''.'')]
                  else [])))
      | _ \<Rightarrow> Inl TypeError)"

definition txt_quote :: "pylib \<Rightarrow> quote_dict option \<Rightarrow> error + str list" where
  \<open>txt_quote L q =
     (case q of
        None \<Rightarrow> Inr []
      | Some qd \<Rightarrow>
          (let quote_sender = (if sent_by_me qd then asc ''ME'' else asc ''THEM'')
           in ebind (txt_quote_preview L (quote_text qd)) (\<lambda>quote_preview.
                Inr [box_v @ asc ''  '' @ reply_arrow @ asc '' Reply to '' @ quote_sender @
                     asc '': "'' @ quote_preview @ asc ''"''])))\<close>

definition txt_content :: "pylib \<Rightarrow> message \<Rightarrow> str \<Rightarrow> error + str list" where
  "txt_content L msg icon =
     (if deleted msg then Inr [box_v @ asc ''  [Message deleted]'']
      else if msg_text msg \<noteq> [] then
        Inr (map (\<lambda>text_line.
                    box_v @ asc ''  '' @ (if icon \<noteq> [] then icon @ asc '' '' else []) @ text_line)
               (split (of_char CHR 0x0A) (msg_text msg)))
      else ebind (upper L (content_type msg)) (\<lambda>u.
             Inr [box_v @ asc ''  '' @ icon @ asc '' ['' @ u @ asc '']'']))"

text \<open>The lines one message appends, after the date separator if any.\<close>

definition txt_message :: "pylib \<Rightarrow> message \<Rightarrow> error + str list" where
  "txt_message L msg =
     ebind (icons_get (content_type msg) []) (\<lambda>icon.
     ebind (txt_quote L (quote msg)) (\<lambda>q.
     ebind (txt_content L msg icon) (\<lambda>c.
       Inr ([txt_header msg] @ q @ c @ [box_bottom, []]))))"

text \<open>
  One turn of the loop on the state \<open>(current_date, lines)\<close>; \<open>current_date\<close> starts
  as \<^verbatim>\<open>None\<close>.
\<close>

definition txt_step ::
  "pylib \<Rightarrow> str option \<times> str list \<Rightarrow> message \<Rightarrow> error + str option \<times> str list" where
  "txt_step L st msg =
     (case st of (current_date, lines) \<Rightarrow>
        (let st1 = (if msg_date msg \<noteq> [] \<and> Some (msg_date msg) \<noteq> current_date
                    then (Some (msg_date msg), lines @ txt_date_sep (msg_date msg))
                    else (current_date, lines))
         in ebind (txt_message L msg) (\<lambda>block. Inr (fst st1, snd st1 @ block))))"

fun txt_loop ::
  "pylib \<Rightarrow> str option \<times> str list \<Rightarrow> message list \<Rightarrow> error + str option \<times> str list" where
  "txt_loop L st [] = Inr st"
| "txt_loop L st (msg # msgs) = ebind (txt_step L st msg) (\<lambda>st1. txt_loop L st1 msgs)"

definition txt_banner :: "datetime \<Rightarrow> message list \<Rightarrow> str \<Rightarrow> str list" where
  "txt_banner now messages chat_name =
     [str_times (asc ''='') 70,
      asc ''  SIMPLEX CHAT EXPORT: '' @ chat_name,
      asc ''  Exported: '' @ strftime now,
      asc ''  Messages: '' @ str_nat (length messages),
      str_times (asc ''='') 70,
      []]"

definition txt_footer :: "str list" where
  "txt_footer = [str_times (asc ''='') 70, asc ''  END OF EXPORT'', str_times (asc ''='') 70]"

text \<open>
  \<^verbatim>\<open>export_txt\<close>: the text written to the file; \<open>now\<close> is \<^verbatim>\<open>datetime.now()\<close>. An
  exception in the loop leaves before the file is opened; the write raises on a lone
  surrogate.
\<close>

definition export_txt :: "pylib \<Rightarrow> datetime \<Rightarrow> message list \<Rightarrow> str \<Rightarrow> error + str" where
  "export_txt L now messages chat_name =
     ebind (txt_loop L (None, txt_banner now messages chat_name) messages) (\<lambda>st.
       write_utf8 (join (asc ''\<newline>'') (snd st @ txt_footer)))"

paragraph \<open>\<^verbatim>\<open>export_json\<close>\<close>

text \<open>\<^verbatim>\<open>datetime.now().isoformat()\<close>: the microseconds are printed unless they are zero.\<close>

definition isoformat :: "datetime \<Rightarrow> str" where
  "isoformat dt =
     zpad 4 (year dt) @ asc ''-'' @ zpad 2 (month dt) @ asc ''-'' @ zpad 2 (day dt) @
     asc ''T'' @ zpad 2 (hour dt) @ asc '':'' @ zpad 2 (minute dt) @ asc '':'' @
     zpad 2 (second dt) @
     (if microsecond dt \<noteq> 0 then asc ''.'' @ zpad 6 (microsecond dt) else [])"

text \<open>A message as the dict it is: ten keys in the order of the source's literal.\<close>

definition quote_json :: "quote_dict option \<Rightarrow> json" where
  "quote_json q =
     (case q of
        None \<Rightarrow> JNull
      | Some qd \<Rightarrow>
          JObject [(asc ''text'', quote_text qd), (asc ''sent_by_me'', JBool (sent_by_me qd))])"

definition message_json :: "message \<Rightarrow> json" where
  "message_json msg =
     JObject
       [(asc ''id'', JInt (msg_id msg)),
        (asc ''timestamp'', JString (timestamp msg)),
        (asc ''timestamp_raw'',
           (case timestamp_raw msg of None \<Rightarrow> JNull | Some ts \<Rightarrow> JString ts)),
        (asc ''sent'', JBool (sent msg)),
        (asc ''sender'', JString (sender msg)),
        (asc ''text'', JString (msg_text msg)),
        (asc ''deleted'', JBool (deleted msg)),
        (asc ''edited'', JBool (edited msg)),
        (asc ''content_type'', content_type msg),
        (asc ''quote'', quote_json (quote msg))]"

text \<open>The \<^verbatim>\<open>data\<close> dict of \<^verbatim>\<open>export_json\<close>.\<close>

definition export_json_data :: "datetime \<Rightarrow> message list \<Rightarrow> str \<Rightarrow> json" where
  "export_json_data now messages chat_name =
     JObject
       [(asc ''meta'',
           JObject
             [(asc ''chat_name'', JString chat_name),
              (asc ''exported_at'', JString (isoformat now)),
              (asc ''message_count'', JInt (int (length messages))),
              (asc ''tool'', JString (asc ''SimpleDB''))]),
        (asc ''messages'', JArray (map message_json messages))]"







paragraph \<open>\<^verbatim>\<open>export_html\<close>\<close>

text \<open>The constant parts of the document head, between the f-string's four fields.\<close>

definition html_head_title :: str where
  \<open>html_head_title =
     asc ''<!DOCTYPE html>\<newline>'' @
     asc ''<html lang="en">\<newline>'' @
     asc ''<head>\<newline>'' @
     asc ''    <meta charset="UTF-8">\<newline>'' @
     asc ''    <meta name="viewport" content="width=device-width, initial-scale=1.0">\<newline>'' @
     asc ''    <title>Chat Export: ''\<close>

definition html_head_style :: str where
  \<open>html_head_style =
     asc ''</title>\<newline>'' @
     asc ''    <style>\<newline>'' @
     asc ''        * { margin: 0; padding: 0; box-sizing: border-box; }\<newline>'' @
     asc ''        body {\<newline>'' @
     asc ''            font-family: -apple-system, BlinkMacSystemFont, 'Segoe UI', Roboto, sans-serif;\<newline>'' @
     asc ''            background: linear-gradient(135deg, #0a0a0f 0%, #1a1a2e 100%);\<newline>'' @
     asc ''            color: #e0e0e0;\<newline>'' @
     asc ''            min-height: 100vh;\<newline>'' @
     asc ''            padding: 20px;\<newline>'' @
     asc ''        }\<newline>'' @
     asc ''        .container { max-width: 800px; margin: 0 auto; }\<newline>'' @
     asc ''        header {\<newline>'' @
     asc ''            text-align: center;\<newline>'' @
     asc ''            padding: 30px;\<newline>'' @
     asc ''            background: rgba(0, 217, 255, 0.1);\<newline>'' @
     asc ''            border: 1px solid rgba(0, 217, 255, 0.3);\<newline>'' @
     asc ''            border-radius: 16px;\<newline>'' @
     asc ''            margin-bottom: 30px;\<newline>'' @
     asc ''        }\<newline>'' @
     asc ''        h1 { color: #00d9ff; font-size: 1.8em; margin-bottom: 10px; }\<newline>'' @
     asc ''        .meta { color: #888; font-size: 0.9em; }\<newline>'' @
     asc ''        .date-sep {\<newline>'' @
     asc ''            text-align: center;\<newline>'' @
     asc ''            padding: 15px;\<newline>'' @
     asc ''            color: #00d9ff;\<newline>'' @
     asc ''            font-weight: 600;\<newline>'' @
     asc ''            font-size: 0.9em;\<newline>'' @
     asc ''        }\<newline>'' @
     asc ''        .msg {\<newline>'' @
     asc ''            margin: 12px 0;\<newline>'' @
     asc ''            padding: 14px 18px;\<newline>'' @
     asc ''            border-radius: 16px;\<newline>'' @
     asc ''            max-width: 75%;\<newline>'' @
     asc ''            position: relative;\<newline>'' @
     asc ''        }\<newline>'' @
     asc ''        .msg.sent {\<newline>'' @
     asc ''            background: linear-gradient(135deg, #0066cc, #004499);\<newline>'' @
     asc ''            margin-left: auto;\<newline>'' @
     asc ''            border-bottom-right-radius: 4px;\<newline>'' @
     asc ''        }\<newline>'' @
     asc ''        .msg.received {\<newline>'' @
     asc ''            background: rgba(255,255,255,0.05);\<newline>'' @
     asc ''            border: 1px solid rgba(255,255,255,0.1);\<newline>'' @
     asc ''            margin-right: auto;\<newline>'' @
     asc ''            border-bottom-left-radius: 4px;\<newline>'' @
     asc ''        }\<newline>'' @
     asc ''        .msg-header {\<newline>'' @
     asc ''            display: flex;\<newline>'' @
     asc ''            justify-content: space-between;\<newline>'' @
     asc ''            align-items: center;\<newline>'' @
     asc ''            margin-bottom: 8px;\<newline>'' @
     asc ''            font-size: 0.8em;\<newline>'' @
     asc ''        }\<newline>'' @
     asc ''        .sender { font-weight: 600; color: #00d9ff; }\<newline>'' @
     asc ''        .sent .sender { color: #66d9ff; }\<newline>'' @
     asc ''        .time { color: #666; }\<newline>'' @
     asc ''        .edited { color: #888; font-size: 0.75em; margin-left: 8px; }\<newline>'' @
     asc ''        .quote {\<newline>'' @
     asc ''            background: rgba(0,0,0,0.3);\<newline>'' @
     asc ''            border-left: 3px solid #00d9ff;\<newline>'' @
     asc ''            padding: 10px 14px;\<newline>'' @
     asc ''            margin-bottom: 10px;\<newline>'' @
     asc ''            border-radius: 8px;\<newline>'' @
     asc ''            font-size: 0.9em;\<newline>'' @
     asc ''        }\<newline>'' @
     asc ''        .quote-sender { color: #00d9ff; font-weight: 600; font-size: 0.85em; }\<newline>'' @
     asc ''        .quote-text { color: #aaa; margin-top: 4px; }\<newline>'' @
     asc ''        .content { line-height: 1.6; white-space: pre-wrap; word-wrap: break-word; }\<newline>'' @
     asc ''        .deleted { color: #666; font-style: italic; }\<newline>'' @
     asc ''        .media { \<newline>'' @
     asc ''            display: inline-flex;\<newline>'' @
     asc ''            align-items: center;\<newline>'' @
     asc ''            gap: 6px;\<newline>'' @
     asc ''            background: rgba(0,217,255,0.1);\<newline>'' @
     asc ''            padding: 6px 12px;\<newline>'' @
     asc ''            border-radius: 8px;\<newline>'' @
     asc ''            font-size: 0.9em;\<newline>'' @
     asc ''        }\<newline>'' @
     asc ''    </style>\<newline>'' @
     asc ''</head>\<newline>'' @
     asc ''<body>\<newline>'' @
     asc ''    <div class="container">\<newline>'' @
     asc ''        <header>\<newline>'' @
     asc ''            <h1>'' @
     speech_icon @
     asc '' ''\<close>

definition html_head_meta :: str where
  \<open>html_head_meta =
     asc ''</h1>\<newline>'' @
     asc ''            <div class="meta">\<newline>'' @
     asc ''                Exported ''\<close>

definition html_head_count :: str where
  \<open>html_head_count =
     asc '' '' @
     bullet @
     asc '' ''\<close>

definition html_head_chat :: str where
  \<open>html_head_chat =
     asc '' messages\<newline>'' @
     asc ''            </div>\<newline>'' @
     asc ''        </header>\<newline>'' @
     asc ''        <div class="chat">\<newline>''\<close>


definition html_head :: "datetime \<Rightarrow> message list \<Rightarrow> str \<Rightarrow> str" where
  "html_head now messages chat_name =
     html_head_title @ chat_name @ html_head_style @ chat_name @ html_head_meta @
     strftime now @ html_head_count @ str_nat (length messages) @ html_head_chat"

definition html_tail :: str where
  \<open>html_tail =
     asc ''        </div>\<newline>'' @
     asc ''    </div>\<newline>'' @
     asc ''</body>\<newline>'' @
     asc ''</html>''\<close>

definition html_date_sep :: "str \<Rightarrow> str" where
  \<open>html_date_sep current_date =
     asc ''            <div class="date-sep">'' @ str_times box_h 3 @ asc '' '' @ current_date @
     asc '' '' @ str_times box_h 3 @ asc ''</div>\<newline>''\<close>

definition html_time :: "message \<Rightarrow> str" where
  "html_time msg = (if 32 \<in> set (timestamp msg) then split 32 (timestamp msg) ! 1 else [])"

definition html_header :: "message \<Rightarrow> str" where
  \<open>html_header msg =
     (let cls = (if sent msg then asc ''sent'' else asc ''received'');
          edited_span = (if edited msg then asc ''<span class="edited">(edited)</span>'' else [])
      in asc ''            <div class="msg '' @ cls @ asc ''">\<newline>'' @
         asc ''                <div class="msg-header">\<newline>'' @
         asc ''                    <span class="sender">'' @ sender msg @ asc ''</span>\<newline>'' @
         asc ''                    <span><span class="time">'' @ html_time msg @ asc ''</span>'' @
           edited_span @ asc ''</span>\<newline>'' @
         asc ''                </div>\<newline>'')\<close>

text \<open>
  The quote block. A list can be sliced and has no \<^verbatim>\<open>replace\<close>; any other value that
  is not a string cannot be sliced.
\<close>

definition html_quote :: "quote_dict option \<Rightarrow> error + str" where
  \<open>html_quote q =
     (case q of
        None \<Rightarrow> Inr []
      | Some qd \<Rightarrow>
          (let q_sender = (if sent_by_me qd then asc ''ME'' else asc ''THEM'')
           in ebind (case quote_text qd of
                      JString s \<Rightarrow> Inr (escape_html (take 100 s))
                    | JArray xs \<Rightarrow> Inl AttributeError
                    | _ \<Rightarrow> Inl TypeError) (\<lambda>q_text.
                Inr (asc ''                <div class="quote">\<newline>'' @
                     asc ''                    <div class="quote-sender">'' @ quote_arrow @
                       asc '' '' @ q_sender @ asc ''</div>\<newline>'' @
                     asc ''                    <div class="quote-text">'' @ q_text @
                       asc ''</div>\<newline>'' @
                     asc ''                </div>\<newline>''))))\<close>

definition html_content :: "pylib \<Rightarrow> message \<Rightarrow> error + str" where
  \<open>html_content L msg =
     (if deleted msg then
        Inr (asc ''                <div class="content deleted">[Message deleted]</div>\<newline>'')
      else if msg_text msg \<noteq> [] then
        Inr (asc ''                <div class="content">'' @ escape_html (msg_text msg) @
             asc ''</div>\<newline>'')
      else ebind (icons_get (content_type msg) page_icon) (\<lambda>icon.
           ebind (upper L (content_type msg)) (\<lambda>u.
             Inr (asc ''                <div class="content"><span class="media">'' @ icon @
                  asc '' '' @ u @ asc ''</span></div>\<newline>''))))\<close>

text \<open>The text one message appends, after the date separator if any.\<close>

definition html_message :: "pylib \<Rightarrow> message \<Rightarrow> error + str" where
  "html_message L msg =
     ebind (html_quote (quote msg)) (\<lambda>q.
     ebind (html_content L msg) (\<lambda>c.
       Inr (html_header msg @ q @ c @ asc ''            </div>\<newline>'')))"

definition html_step ::
  "pylib \<Rightarrow> str option \<times> str \<Rightarrow> message \<Rightarrow> error + str option \<times> str" where
  "html_step L st msg =
     (case st of (current_date, html) \<Rightarrow>
        (let st1 = (if msg_date msg \<noteq> [] \<and> Some (msg_date msg) \<noteq> current_date
                    then (Some (msg_date msg), html @ html_date_sep (msg_date msg))
                    else (current_date, html))
         in ebind (html_message L msg) (\<lambda>block. Inr (fst st1, snd st1 @ block))))"

fun html_loop ::
  "pylib \<Rightarrow> str option \<times> str \<Rightarrow> message list \<Rightarrow> error + str option \<times> str" where
  "html_loop L st [] = Inr st"
| "html_loop L st (msg # msgs) = ebind (html_step L st msg) (\<lambda>st1. html_loop L st1 msgs)"

text \<open>
  \<^verbatim>\<open>export_html\<close>: the text written to the file; the write raises on a lone
  surrogate.
\<close>

definition export_html :: "pylib \<Rightarrow> datetime \<Rightarrow> message list \<Rightarrow> str \<Rightarrow> error + str" where
  "export_html L now messages chat_name =
     ebind (html_loop L (None, html_head now messages chat_name) messages) (\<lambda>st.
       write_utf8 (snd st @ html_tail))"

subsection \<open>Properties of the specification\<close>

text \<open>
  The six content types of the specification's \<open>contentType\<close> enumeration.
\<close>

definition spec_content_types :: "json set" where
  "spec_content_types =
     {JString (asc ''text''), JString (asc ''image''), JString (asc ''file''),
      JString (asc ''voice''), JString (asc ''video''), JString (asc ''link'')}"

text \<open>
  The specification's content-type extraction on a decoded descriptor: select whichever
  of the two direction-keyed sub-objects is present, read its nested message content
  object and that object's \<open>type\<close> field.
\<close>

definition spec_descriptor_type :: "json \<Rightarrow> json option" where
  "spec_descriptor_type c =
     (case c of
        JObject kvs \<Rightarrow>
          (case (case map_of kvs (asc ''rcvMsgContent'') of
                   Some v \<Rightarrow> Some v
                 | None \<Rightarrow> map_of kvs (asc ''sndMsgContent'')) of
             Some (JObject mc) \<Rightarrow>
               (case map_of mc (asc ''msgContent'') of
                  Some (JObject inner) \<Rightarrow> map_of inner (asc ''type'')
                | _ \<Rightarrow> None)
           | _ \<Rightarrow> None)
      | _ \<Rightarrow> None)"

text \<open>
  A content descriptor matches the received or the sent message content shape when it
  decodes to an object with the key \<open>rcvMsgContent\<close> or \<open>sndMsgContent\<close>.
\<close>

definition spec_matches_shape :: "pylib \<Rightarrow> row \<Rightarrow> bool" where
  "spec_matches_shape L r =
     (case item_content r of
        None \<Rightarrow> False
      | Some s \<Rightarrow>
          (case json_loads L s of
             Some (JObject kvs) \<Rightarrow>
               asc ''rcvMsgContent'' \<in> fst ` set kvs \<or> asc ''sndMsgContent'' \<in> fst ` set kvs
           | _ \<Rightarrow> False))"

text \<open>
  The fixed form \<open>YYYY-MM-DD HH:MM:SS\<close>, as a pattern: \<open>D\<close> stands for a decimal
  digit, any other character for itself.
\<close>

definition is_digit :: "nat \<Rightarrow> bool" where
  "is_digit c = (48 \<le> c \<and> c \<le> 57)"

definition matches_pattern :: "string \<Rightarrow> str \<Rightarrow> bool" where
  "matches_pattern pat s =
     list_all2 (\<lambda>p c. if p = CHR ''D'' then is_digit c else c = of_char p) pat s"

text \<open>The field ranges of a \<^verbatim>\<open>datetime\<close> object.\<close>

definition valid_datetime :: "datetime \<Rightarrow> bool" where
  "valid_datetime dt =
     (1 \<le> year dt \<and> year dt \<le> 9999 \<and> 1 \<le> month dt \<and> month dt \<le> 12 \<and>
      1 \<le> day dt \<and> day dt \<le> 31 \<and> hour dt < 24 \<and> minute dt < 60 \<and> second dt < 60)"

text \<open>
  Escaping as one pass over the characters: each character is replaced once, and the
  replacement is not looked at again.
\<close>

definition esc_char :: "nat \<Rightarrow> str" where
  \<open>esc_char c =
     (if c = of_char CHR ''&'' then asc ''&amp;''
      else if c = of_char CHR ''<'' then asc ''&lt;''
      else if c = of_char CHR ''>'' then asc ''&gt;''
      else if c = of_char CHR ''"'' then asc ''&quot;''
      else if c = of_char CHR 0x0A then asc ''<br>''
      else [c])\<close>

text \<open>
  The date the loop tracks after a list of messages: the date of the last message that
  has one.
\<close>

definition tracked_date :: "message list \<Rightarrow> str option" where
  "tracked_date ms =
     (let ds = filter (\<lambda>d. d \<noteq> []) (map msg_date ms)
      in if ds = [] then None else Some (last ds))"

text \<open>
  A separator is due before message \<open>i\<close>: its date is not empty and is not the date the
  messages before it leave tracked.
\<close>

definition starts_run :: "message list \<Rightarrow> nat \<Rightarrow> bool" where
  "starts_run ms i =
     (msg_date (ms ! i) \<noteq> [] \<and> tracked_date (take i ms) \<noteq> Some (msg_date (ms ! i)))"

text \<open>
  The boundary of the specification: the date differs from the date of the message just
  before (the first message has none before it).
\<close>

definition spec_boundary :: "message list \<Rightarrow> nat \<Rightarrow> bool" where
  "spec_boundary ms i = (i = 0 \<or> msg_date (ms ! i) \<noteq> msg_date (ms ! (i - 1)))"

text \<open>
  A rendering in runs: before each message at a boundary the separator of its date, then
  the block of the message.
\<close>

definition grouped ::
  "(message list \<Rightarrow> nat \<Rightarrow> bool) \<Rightarrow> (str \<Rightarrow> 'a list) \<Rightarrow> (message \<Rightarrow> 'a list) \<Rightarrow>
   message list \<Rightarrow> 'a list" where
  "grouped boundary sep block ms =
     concat (map (\<lambda>i. (if boundary ms i then sep (msg_date (ms ! i)) else []) @ block (ms ! i))
               [0..<length ms])"

text \<open>The block of a message whose rendering does not raise.\<close>

definition block_of :: "(message \<Rightarrow> error + 'a list) \<Rightarrow> message \<Rightarrow> 'a list" where
  "block_of render m = (case render m of Inl e \<Rightarrow> [] | Inr b \<Rightarrow> b)"

text \<open>The same two notions when the loop starts from a given tracked date.\<close>

definition tracked_from :: "str option \<Rightarrow> message list \<Rightarrow> str option" where
  "tracked_from cur ms = (case tracked_date ms of None \<Rightarrow> cur | Some d \<Rightarrow> Some d)"

definition grouped_from ::
  "str option \<Rightarrow> (str \<Rightarrow> 'a list) \<Rightarrow> (message \<Rightarrow> 'a list) \<Rightarrow> message list \<Rightarrow> 'a list" where
  "grouped_from cur sep block ms =
     concat (map (\<lambda>i. (if msg_date (ms ! i) \<noteq> [] \<and>
                           tracked_from cur (take i ms) \<noteq> Some (msg_date (ms ! i))
                        then sep (msg_date (ms ! i)) else []) @ block (ms ! i))
               [0..<length ms])"


text \<open>
  A message of the specification's data model: its content type and the text of its
  quote are strings.
\<close>

fun is_str :: "json \<Rightarrow> bool" where
  "is_str (JString s) = True"
| "is_str _ = False"

definition well_typed :: "message \<Rightarrow> bool" where
  "well_typed m =
     (is_str (content_type m) \<and>
      (case quote m of None \<Rightarrow> True | Some q \<Rightarrow> is_str (quote_text q)))"


























subsection \<open>Example inputs\<close>

text \<open>
  An instance of the library on the inputs of the examples: \<^verbatim>\<open>json.loads\<close> and
  \<^verbatim>\<open>datetime.fromisoformat\<close> as finite tables (any other input raises), \<^verbatim>\<open>str.upper\<close>
  on ASCII. No example reaches \<open>list_str\<close>, \<open>float_repr\<close> or \<open>parse_float\<close> of this
  instance. The
  event descriptor holds the text \<open>rcvMsgContent\<close>, as a row that the query of
  \<^verbatim>\<open>get_contact_messages\<close> fetches does, without having the key.
\<close>

definition example_datetime :: datetime where
  "example_datetime =
     \<lparr>year = 2024, month = 1, day = 1, hour = 9, minute = 0, second = 0, microsecond = 0\<rparr>"

definition early_datetime :: datetime where
  "early_datetime =
     \<lparr>year = 999, month = 12, day = 31, hour = 23, minute = 59, second = 59, microsecond = 0\<rparr>"

definition example_fromisoformat :: "str \<Rightarrow> datetime option" where
  "example_fromisoformat =
     map_of [(asc ''2024-01-01T09:00:00'', example_datetime),
             (asc ''0999-12-31T23:59:59'', early_datetime)]"

definition sticker_descriptor :: str where
  \<open>sticker_descriptor = asc ''{"rcvMsgContent":{"msgContent":{"type":"sticker","text":"hi"}}}''\<close>

definition image_descriptor :: str where
  \<open>image_descriptor = asc ''{"sndMsgContent":{"msgContent":{"type":"image","text":""}}}''\<close>

definition event_descriptor :: str where
  \<open>event_descriptor = asc ''{"rcvGroupEvent":{"type":"memberAdded","note":"rcvMsgContent"}}''\<close>

definition hello_quote :: str where
  \<open>hello_quote = asc ''{"text":"hello","type":"text"}''\<close>

definition empty_quote :: str where
  \<open>empty_quote = asc ''{"text":"","type":"text"}''\<close>

definition example_loads :: "str \<Rightarrow> json option" where
  "example_loads =
     map_of
       [(sticker_descriptor,
           JObject [(asc ''rcvMsgContent'',
             JObject [(asc ''msgContent'',
               JObject [(asc ''type'', JString (asc ''sticker'')),
                        (asc ''text'', JString (asc ''hi''))])])]),
        (image_descriptor,
           JObject [(asc ''sndMsgContent'',
             JObject [(asc ''msgContent'',
               JObject [(asc ''type'', JString (asc ''image'')),
                        (asc ''text'', JString [])])])]),
        (event_descriptor,
           JObject [(asc ''rcvGroupEvent'',
             JObject [(asc ''type'', JString (asc ''memberAdded'')),
                      (asc ''note'', JString (asc ''rcvMsgContent''))])]),
        (hello_quote,
           JObject [(asc ''text'', JString (asc ''hello'')), (asc ''type'', JString (asc ''text''))]),
        (empty_quote,
           JObject [(asc ''text'', JString []), (asc ''type'', JString (asc ''text''))])]"

definition ascii_upper :: "str \<Rightarrow> str" where
  "ascii_upper s = map (\<lambda>c. if 97 \<le> c \<and> c \<le> 122 then c - 32 else c) s"

definition example_lib :: pylib where
  "example_lib =
     \<lparr>json_loads = example_loads, fromisoformat = example_fromisoformat,
      str_upper = ascii_upper, list_str = (\<lambda>xs. []), float_repr = (\<lambda>q. []),
      parse_float = (\<lambda>s. None)\<rparr>"

text \<open>Rows: an unknown content type, a group event, and a row whose descriptors do not parse.\<close>

definition sticker_row :: row where
  "sticker_row =
     \<lparr>chat_item_id = 1, item_ts = Some (asc ''2024-01-01T09:00:00.123456Z''),
      item_sent = Some 0, item_text = Some (asc ''hi''), item_deleted = Some 0,
      item_content = Some sticker_descriptor, item_edited = None,
      quoted_content = Some hello_quote, quoted_sent = Some 1\<rparr>"

definition event_row :: row where
  "event_row =
     \<lparr>chat_item_id = 2, item_ts = Some (asc ''2024-01-01 09:00:00''),
      item_sent = Some 0, item_text = Some (asc ''member added''), item_deleted = Some 0,
      item_content = Some event_descriptor, item_edited = None,
      quoted_content = None, quoted_sent = None\<rparr>"

definition broken_row :: row where
  \<open>broken_row =
     \<lparr>chat_item_id = 3, item_ts = Some (asc ''Tuesday''),
      item_sent = Some 1, item_text = None, item_deleted = None,
      item_content = Some (asc ''{"rcvMsgContent":''), item_edited = None,
      quoted_content = Some (asc ''{"text":''), quoted_sent = None\<rparr>\<close>

text \<open>
  Messages: three with the timestamps of the date-grouping scenario, one without a
  timestamp, a deleted reply, a reply to a quote of sixty characters, and one whose
  sender and text hold markup.
\<close>

definition msg_morning :: message where
  "msg_morning =
     \<lparr>msg_id = 1, timestamp = asc ''2024-01-01 09:00:00'',
      timestamp_raw = Some (asc ''2024-01-01T09:00:00.123456Z''), sent = False,
      sender = asc ''Bob'', msg_text = asc ''hi'', deleted = False, edited = False,
      content_type = JString (asc ''text''), quote = None\<rparr>"

definition msg_later :: message where
  "msg_later =
     \<lparr>msg_id = 2, timestamp = asc ''2024-01-01 10:00:00'',
      timestamp_raw = Some (asc ''2024-01-01T10:00:00Z''), sent = True,
      sender = asc ''ME'', msg_text = asc ''hello Bob'', deleted = False, edited = True,
      content_type = JString (asc ''text''), quote = None\<rparr>"

definition msg_next_day :: message where
  "msg_next_day =
     \<lparr>msg_id = 3, timestamp = asc ''2024-01-02 08:00:00'',
      timestamp_raw = Some (asc ''2024-01-02T08:00:00Z''), sent = False,
      sender = asc ''Bob'', msg_text = [], deleted = False, edited = False,
      content_type = JString (asc ''image''), quote = None\<rparr>"

definition msg_undated :: message where
  "msg_undated =
     \<lparr>msg_id = 4, timestamp = [], timestamp_raw = None, sent = False,
      sender = asc ''Bob'', msg_text = asc ''when?'', deleted = False, edited = False,
      content_type = JString (asc ''text''), quote = None\<rparr>"

definition msg_deleted :: message where
  "msg_deleted =
     \<lparr>msg_id = 5, timestamp = asc ''2024-01-02 08:05:00'',
      timestamp_raw = Some (asc ''2024-01-02T08:05:00Z''), sent = True,
      sender = asc ''ME'', msg_text = asc ''secret'', deleted = True, edited = False,
      content_type = JString (asc ''text''),
      quote = Some \<lparr>quote_text = JString (asc ''see you''), sent_by_me = False\<rparr>\<rparr>"

definition sixty :: str where
  "sixty = asc ''0123456789012345678901234567890123456789012345678901234567<9''"

definition msg_long_quote :: message where
  "msg_long_quote =
     \<lparr>msg_id = 6, timestamp = asc ''2024-01-02 08:10:00'',
      timestamp_raw = Some (asc ''2024-01-02T08:10:00Z''), sent = False,
      sender = asc ''Bob'', msg_text = asc ''ok'', deleted = False, edited = False,
      content_type = JString (asc ''text''),
      quote = Some \<lparr>quote_text = JString sixty, sent_by_me = True\<rparr>\<rparr>"

definition msg_markup_sender :: message where
  "msg_markup_sender =
     \<lparr>msg_id = 7, timestamp = asc ''2024-01-02 08:15:00'',
      timestamp_raw = Some (asc ''2024-01-02T08:15:00Z''), sent = False,
      sender = asc ''<b>Eve</b>'', msg_text = asc ''<b>hi</b>'', deleted = False, edited = False,
      content_type = JString (asc ''text''), quote = None\<rparr>"







section \<open>Verification\<close>

subsection \<open>Strings\<close>

lemma asc_eq_iff [simp]: "asc s = asc t \<longleftrightarrow> s = t"
proof -
  have "inj (of_char :: char \<Rightarrow> nat)" by (rule injI) simp
  then show ?thesis unfolding asc_def by (rule inj_map_eq_map)
qed

lemma asc_Nil_iff [simp]: "asc s = [] \<longleftrightarrow> s = []" "[] = asc s \<longleftrightarrow> s = []"
  by (auto simp: asc_def)

lemma split_not_Nil: "split c s \<noteq> []"
  by (induction s) (auto split: list.splits)

lemma hd_split_prefix: "c \<notin> set base \<Longrightarrow> hd (split c (base @ c # rest)) = base"
  by (induction base) (auto simp: split_not_Nil split: list.splits)

lemma replace_Nil_filter: "replace c [] s = filter (\<lambda>x. x \<noteq> c) s"
  by (induction s) (auto simp: replace_def)

lemma str_nat_digits: "list_all is_digit (str_nat n)"
proof (induction n rule: str_nat.induct)
  case (1 n)
  show ?case
  proof (cases "n < 10")
    case True
    then show ?thesis by (simp add: str_nat.simps [of n] is_digit_def)
  next
    case False
    have "n mod 10 < 10" by simp
    then have "is_digit (48 + n mod 10)" unfolding is_digit_def by linarith
    with False 1 show ?thesis by (simp add: str_nat.simps [of n])
  qed
qed

lemma str_nat_length: "n < 10 ^ w \<Longrightarrow> 0 < w \<Longrightarrow> length (str_nat n) \<le> w"
proof (induction n arbitrary: w rule: str_nat.induct)
  case (1 n)
  show ?case
  proof (cases "n < 10")
    case True
    with 1 show ?thesis by (simp add: str_nat.simps [of n])
  next
    case False
    from False 1(2) have "1 < w"
      by (metis One_nat_def Suc_lessI \<open>0 < w\<close> power_one_right)
    then obtain v where v: "w = Suc v" "0 < v" by (cases w) auto
    from 1(2) v have "n div 10 < 10 ^ v"
      by (simp add: less_mult_imp_div_less mult.commute)
    with 1(1) False v have "length (str_nat (n div 10)) \<le> v" by simp
    with False v show ?thesis by (simp add: str_nat.simps [of n])
  qed
qed

lemma zpad_length: "n < 10 ^ w \<Longrightarrow> 0 < w \<Longrightarrow> length (zpad w n) = w"
  using str_nat_length [of n w] by (simp add: zpad_def)

lemma zpad_digits: "list_all is_digit (zpad w n)"
  using str_nat_digits [of n] by (auto simp add: zpad_def list_all_iff is_digit_def)

lemma zpad_pattern:
  assumes "n < 10 ^ w" "0 < w"
  shows "list_all2 (\<lambda>p c. if p = CHR ''D'' then is_digit c else c = of_char p)
           (replicate w CHR ''D'') (zpad w n)"
  using zpad_length [OF assms] zpad_digits [of w n]
  by (simp add: list_all2_conv_all_nth list_all_length)

subsection \<open>Timestamps\<close>

lemma str_nat_lower: "10 ^ w \<le> n \<Longrightarrow> w < length (str_nat n)"
proof (induction n arbitrary: w rule: str_nat.induct)
  case (1 n)
  show ?case
  proof (cases "n < 10")
    case True
    have "w = 0"
    proof (cases w)
      case (Suc v)
      have "(10::nat) \<le> 10 * 10 ^ v" by simp
      with 1(2) Suc True show ?thesis by simp
    qed simp
    with True show ?thesis by (simp add: str_nat.simps [of n])
  next
    case False
    show ?thesis
    proof (cases w)
      case 0
      with False show ?thesis by (simp add: str_nat.simps [of n])
    next
      case (Suc v)
      with 1(2) have "10 ^ v \<le> n div 10" by simp
      with 1(1) False have "v < length (str_nat (n div 10))" by simp
      with False Suc show ?thesis by (simp add: str_nat.simps [of n])
    qed
  qed
qed

lemma str_nat_four: "1000 \<le> n \<Longrightarrow> n \<le> 9999 \<Longrightarrow> length (str_nat n) = 4"
  using str_nat_lower [of 3 n] str_nat_length [of n 4] by simp

lemma str_nat_pattern:
  "length (str_nat n) = w \<Longrightarrow>
   list_all2 (\<lambda>p c. if p = CHR ''D'' then is_digit c else c = of_char p)
     (replicate w CHR ''D'') (str_nat n)"
  using str_nat_digits [of n] by (simp add: list_all2_conv_all_nth list_all_length)

lemma strftime_tail_shape:
  assumes "valid_datetime dt"
  shows "matches_pattern ''-DD-DD DD:DD:DD'' (drop (length (str_nat (year dt))) (strftime dt))"
proof -
  from assms have b: "month dt < 10 ^ 2" "day dt < 10 ^ 2"
    "hour dt < 10 ^ 2" "minute dt < 10 ^ 2" "second dt < 10 ^ 2"
    by (simp_all add: valid_datetime_def)
  have p: "''-DD-DD DD:DD:DD'' =
      ''-'' @ replicate 2 CHR ''D'' @ ''-'' @ replicate 2 CHR ''D'' @
      '' '' @ replicate 2 CHR ''D'' @ '':'' @ replicate 2 CHR ''D'' @ '':'' @
      replicate 2 CHR ''D''"
    by (simp add: numeral_eq_Suc)
  have d: "drop (length (str_nat (year dt))) (strftime dt) =
      asc ''-'' @ zpad 2 (month dt) @ asc ''-'' @ zpad 2 (day dt) @
      asc '' '' @ zpad 2 (hour dt) @ asc '':'' @ zpad 2 (minute dt) @ asc '':'' @
      zpad 2 (second dt)"
    by (simp add: strftime_def)
  show ?thesis
    unfolding matches_pattern_def d p
    by (intro list_all2_appendI zpad_pattern b) (simp_all add: asc_def)
qed

lemma strftime_shape:
  assumes "valid_datetime dt" "1000 \<le> year dt"
  shows "matches_pattern ''DDDD-DD-DD DD:DD:DD'' (strftime dt)"
proof -
  from assms have y: "length (str_nat (year dt)) = 4"
    by (simp add: valid_datetime_def str_nat_four)
  from assms have b: "month dt < 10 ^ 2" "day dt < 10 ^ 2"
    "hour dt < 10 ^ 2" "minute dt < 10 ^ 2" "second dt < 10 ^ 2"
    by (simp_all add: valid_datetime_def)
  have p: "''DDDD-DD-DD DD:DD:DD'' =
      replicate 4 CHR ''D'' @ ''-'' @ replicate 2 CHR ''D'' @ ''-'' @ replicate 2 CHR ''D'' @
      '' '' @ replicate 2 CHR ''D'' @ '':'' @ replicate 2 CHR ''D'' @ '':'' @
      replicate 2 CHR ''D''"
    by (simp add: numeral_eq_Suc)
  show ?thesis
    unfolding matches_pattern_def strftime_def p
    by (intro list_all2_appendI zpad_pattern b str_nat_pattern y) (simp_all add: asc_def)
qed

lemma clean_fraction:
  "of_char CHR ''.'' \<notin> set base \<Longrightarrow> clean (base @ of_char CHR ''.'' # rest) = base"
  by (simp add: clean_def hd_split_prefix)

lemma clean_zone:
  assumes "of_char CHR ''.'' \<notin> set base" "of_char CHR ''Z'' \<notin> set base"
  shows "clean (base @ asc ''Z'') = base"
proof -
  have "filter (\<lambda>x. x \<noteq> of_char CHR ''Z'') base = base"
    using assms(2) by (auto simp: filter_id_conv)
  with assms(1) show ?thesis
    by (simp add: clean_def asc_def replace_Nil_filter)
qed

text \<open>
  C9 (as amended). \<^verbatim>\<open>_format_timestamp\<close>: an absent or empty raw timestamp gives the
  empty string; a raw timestamp without the marker \<open>T\<close>, or one whose cleaned form does
  not parse, is returned unchanged; one that parses is reformatted by \<open>strftime\<close>. For
  a valid date-time the result is the year, as many digits as it has, followed by
  \<open>-MM-DD HH:MM:SS\<close>; with a year from 1000 on it has the form
  \<open>YYYY-MM-DD HH:MM:SS\<close>. Cleaning strips a fractional part from its dot on, and a
  \<open>Z\<close> suffix when there is no dot.
\<close>

theorem format_timestamp_cases:
  "format_timestamp L None = [] \<and>
   format_timestamp L (Some []) = [] \<and>
   (ts \<noteq> [] \<and> of_char CHR ''T'' \<notin> set ts \<longrightarrow> format_timestamp L (Some ts) = ts) \<and>
   (ts \<noteq> [] \<and> of_char CHR ''T'' \<in> set ts \<and> fromisoformat L (clean ts) = None \<longrightarrow>
      format_timestamp L (Some ts) = ts) \<and>
   (of_char CHR ''T'' \<in> set ts \<and> fromisoformat L (clean ts) = Some dt \<longrightarrow>
      format_timestamp L (Some ts) = strftime dt) \<and>
   (valid_datetime dt \<longrightarrow>
      take (length (str_nat (year dt))) (strftime dt) = str_nat (year dt) \<and>
      matches_pattern ''-DD-DD DD:DD:DD'' (drop (length (str_nat (year dt))) (strftime dt))) \<and>
   (valid_datetime dt \<and> 1000 \<le> year dt \<longrightarrow>
      matches_pattern ''DDDD-DD-DD DD:DD:DD'' (strftime dt)) \<and>
   (of_char CHR ''.'' \<notin> set base \<longrightarrow> clean (base @ of_char CHR ''.'' # rest) = base) \<and>
   (of_char CHR ''.'' \<notin> set base \<and> of_char CHR ''Z'' \<notin> set base \<longrightarrow>
      clean (base @ asc ''Z'') = base)"
proof -
  have "of_char CHR ''T'' \<in> set ts \<Longrightarrow> ts \<noteq> []" by auto
  moreover have "take (length (str_nat (year dt))) (strftime dt) = str_nat (year dt)"
    by (simp add: strftime_def)
  ultimately show ?thesis
    using strftime_shape [of dt] strftime_tail_shape [of dt] clean_fraction [of base rest]
      clean_zone [of base]
    by (auto simp: format_timestamp_def format_timestamp_try_def)
qed

theorem format_timestamp_cases_witness:
  "format_timestamp example_lib (Some (asc ''2024-01-01T09:00:00.123456Z'')) =
     asc ''2024-01-01 09:00:00'' \<and>
   matches_pattern ''DDDD-DD-DD DD:DD:DD'' (asc ''2024-01-01 09:00:00'') \<and>
   clean (asc ''2024-01-01T09:00:00.123456Z'') = asc ''2024-01-01T09:00:00'' \<and>
   clean (asc ''2024-01-01T09:00:00Z'') = asc ''2024-01-01T09:00:00'' \<and>
   format_timestamp example_lib (Some (asc ''2024-01-01 09:00:00.123456'')) =
     asc ''2024-01-01 09:00:00.123456'' \<and>
   format_timestamp example_lib (Some (asc ''Tuesday'')) = asc ''Tuesday''"
proof -
  have s: "strftime example_datetime = asc ''2024-01-01 09:00:00''"
    by (simp add: strftime_def example_datetime_def zpad_def str_nat.simps asc_def)
  have v: "valid_datetime example_datetime" "1000 \<le> year example_datetime"
    by (simp_all add: valid_datetime_def example_datetime_def)
  have c: "clean (asc ''2024-01-01T09:00:00.123456Z'') = asc ''2024-01-01T09:00:00''"
    by (simp add: clean_def asc_def)
  have p: "fromisoformat example_lib (asc ''2024-01-01T09:00:00'') = Some example_datetime"
    by (simp add: example_lib_def example_fromisoformat_def)
  have t: "fromisoformat example_lib (clean (asc ''Tuesday'')) = None"
    by (simp add: example_lib_def example_fromisoformat_def clean_def replace_def asc_def)
  show ?thesis
    using format_timestamp_cases [of example_lib "asc ''2024-01-01T09:00:00.123456Z''"
        example_datetime "asc ''2024-01-01T09:00:00''" "asc ''123456Z''"]
      format_timestamp_cases [of example_lib "asc ''2024-01-01 09:00:00.123456''"
        example_datetime "asc ''2024-01-01T09:00:00''" "[]"]
      format_timestamp_cases [of example_lib "asc ''Tuesday''"
        example_datetime "asc ''2024-01-01T09:00:00''" "[]"]
      s v c p t
    by (simp add: asc_def)
qed

text \<open>
  The claim as stated fails: the timestamp \<open>0999-12-31T23:59:59\<close> parses and is
  reformatted to \<open>999-12-31 23:59:59\<close>, which has not the form
  \<open>YYYY-MM-DD HH:MM:SS\<close>.
\<close>

theorem format_timestamp_counterexample:
  "valid_datetime early_datetime \<and>
   format_timestamp example_lib (Some (asc ''0999-12-31T23:59:59'')) =
     asc ''999-12-31 23:59:59'' \<and>
   \<not> matches_pattern ''DDDD-DD-DD DD:DD:DD''
       (format_timestamp example_lib (Some (asc ''0999-12-31T23:59:59'')))"
proof -
  have v: "valid_datetime early_datetime"
    by (simp add: valid_datetime_def early_datetime_def)
  have c: "clean (asc ''0999-12-31T23:59:59'') = asc ''0999-12-31T23:59:59''"
    by (simp add: clean_def replace_def asc_def)
  have p: "fromisoformat example_lib (asc ''0999-12-31T23:59:59'') = Some early_datetime"
    by (simp add: example_lib_def example_fromisoformat_def)
  have s: "strftime early_datetime = asc ''999-12-31 23:59:59''"
    by (simp add: strftime_def early_datetime_def zpad_def str_nat.simps asc_def)
  have f: "format_timestamp example_lib (Some (asc ''0999-12-31T23:59:59'')) =
      asc ''999-12-31 23:59:59''"
    using c p s
    by (simp add: format_timestamp_def format_timestamp_try_def) (simp add: asc_def)
  have "\<not> matches_pattern ''DDDD-DD-DD DD:DD:DD'' (asc ''999-12-31 23:59:59'')"
    by (simp add: matches_pattern_def asc_def)
  with v f show ?thesis by simp
qed

subsection \<open>The normalizer\<close>

lemma example_loads_simps:
  "json_loads example_lib sticker_descriptor =
     Some (JObject [(asc ''rcvMsgContent'',
             JObject [(asc ''msgContent'',
               JObject [(asc ''type'', JString (asc ''sticker'')),
                        (asc ''text'', JString (asc ''hi''))])])])"
  "json_loads example_lib event_descriptor =
     Some (JObject [(asc ''rcvGroupEvent'',
             JObject [(asc ''type'', JString (asc ''memberAdded'')),
                      (asc ''note'', JString (asc ''rcvMsgContent''))])])"
  "json_loads example_lib hello_quote =
     Some (JObject [(asc ''text'', JString (asc ''hello'')), (asc ''type'', JString (asc ''text''))])"
  \<open>json_loads example_lib (asc ''{"rcvMsgContent":'') = None\<close>
  \<open>json_loads example_lib (asc ''{"text":'') = None\<close>
  by (simp_all add: example_lib_def example_loads_def sticker_descriptor_def
      image_descriptor_def event_descriptor_def hello_quote_def empty_quote_def)

lemma example_descriptors_not_Nil:
  "sticker_descriptor \<noteq> []" "event_descriptor \<noteq> []" "hello_quote \<noteq> []"
  by (simp_all add: sticker_descriptor_def event_descriptor_def hello_quote_def)

lemma parse_content_type_spec:
  "parse_content_type L d =
     (case d of
        None \<Rightarrow> JString (asc ''text'')
      | Some s \<Rightarrow>
          if s = [] then JString (asc ''text'')
          else (case json_loads L s of
                  None \<Rightarrow> JString (asc ''text'')
                | Some c \<Rightarrow>
                    (case spec_descriptor_type c of
                       None \<Rightarrow> JString (asc ''text'')
                     | Some t \<Rightarrow> t)))"
proof (cases d)
  case None
  then show ?thesis by (simp add: parse_content_type_def)
next
  case (Some s)
  show ?thesis
  proof (cases "json_loads L s")
    case None
    with Some show ?thesis by (simp add: parse_content_type_def content_type_try_def)
  next
    case (Some c)
    have "(case content_type_try L s of Inl e \<Rightarrow> JString (asc ''text'') | Inr t \<Rightarrow> t) =
          (case spec_descriptor_type c of None \<Rightarrow> JString (asc ''text'') | Some t \<Rightarrow> t)"
    proof (cases c)
      case (JObject kvs)
      show ?thesis
      proof (cases "case map_of kvs (asc ''rcvMsgContent'') of
                   Some v \<Rightarrow> Some v
                 | None \<Rightarrow> map_of kvs (asc ''sndMsgContent'')")
        case None
        with Some JObject show ?thesis
          by (simp add: content_type_try_def spec_descriptor_type_def ebind_def
              split: option.splits)
      next
        case mc: (Some v)
        show ?thesis
        proof (cases v)
          case inner: (JObject m)
          show ?thesis
          proof (cases "map_of m (asc ''msgContent'')")
            case None
            with Some JObject mc inner show ?thesis
              by (auto simp add: content_type_try_def spec_descriptor_type_def ebind_def
                  split: option.splits)
          next
            case i: (Some w)
            with Some JObject mc inner show ?thesis
              by (cases w) (auto simp add: content_type_try_def spec_descriptor_type_def ebind_def
                  split: option.splits)
          qed
        qed (use Some JObject mc in \<open>auto simp add: content_type_try_def spec_descriptor_type_def
              ebind_def split: option.splits\<close>)
      qed
    qed (use Some in \<open>simp_all add: content_type_try_def spec_descriptor_type_def ebind_def\<close>)
    with \<open>d = Some s\<close> Some show ?thesis by (simp add: parse_content_type_def)
  qed
qed


lemma parse_message_Some:
  "\<exists>m. parse_message L r name = Inr (Some m) \<and>
       content_type m = parse_content_type L (item_content r) \<and>
       quote m = parse_quote L (quoted_content r) (quoted_sent r) \<and>
       timestamp m = format_timestamp L (item_ts r) \<and>
       timestamp_raw m = item_ts r"
  by (simp add: parse_message_def)

lemma not_matches_text:
  assumes "\<not> spec_matches_shape L r"
  shows "parse_content_type L (item_content r) = JString (asc ''text'')"
proof (cases "item_content r")
  case None
  then show ?thesis by (simp add: parse_content_type_def)
next
  case (Some s)
  show ?thesis
  proof (cases "json_loads L s")
    case None
    with Some show ?thesis by (simp add: parse_content_type_spec)
  next
    case c: (Some c)
    have "spec_descriptor_type c = None"
    proof (cases c)
      case (JObject kvs)
      with assms Some c have "map_of kvs (asc ''rcvMsgContent'') = None"
        "map_of kvs (asc ''sndMsgContent'') = None"
        by (simp_all add: spec_matches_shape_def map_of_eq_None_iff)
      with JObject show ?thesis by (simp add: spec_descriptor_type_def)
    qed (simp_all add: spec_descriptor_type_def)
    with Some c show ?thesis by (simp add: parse_content_type_spec)
  qed
qed

lemma get_contact_messages_all:
  "\<exists>ms. get_contact_messages L rs name = Inr ms \<and>
        list_all2 (\<lambda>r m. parse_message L r name = Inr (Some m)) rs ms"
proof (induction rs)
  case Nil
  show ?case by simp
next
  case (Cons r rs)
  then obtain ms where ms: "get_contact_messages L rs name = Inr ms"
    "list_all2 (\<lambda>r m. parse_message L r name = Inr (Some m)) rs ms" by blast
  obtain m where m: "parse_message L r name = Inr (Some m)"
    using parse_message_Some by blast
  from ms m show ?case by (simp add: ebind_def)
qed

lemma get_group_messages_all:
  "\<exists>ms. get_group_messages L grs = Inr ms \<and>
        list_all2 (\<lambda>g m. parse_message L (fst g) (snd g) = Inr (Some m)) grs ms"
proof (induction grs)
  case Nil
  show ?case by simp
next
  case (Cons g grs)
  then obtain ms where ms: "get_group_messages L grs = Inr ms"
    "list_all2 (\<lambda>g m. parse_message L (fst g) (snd g) = Inr (Some m)) grs ms" by blast
  obtain m where m: "parse_message L (fst g) (snd g) = Inr (Some m)"
    using parse_message_Some by blast
  from ms m show ?case by (cases g) (simp add: ebind_def)
qed

text \<open>
  C1 (as amended). \<^verbatim>\<open>_parse_message\<close> returns a message for every row and never raises.
  Its content type is \<open>text\<close> when the content descriptor is absent, empty, does not
  parse, or has no \<open>type\<close> field at the place the specification reads it; otherwise it
  is the value of that field, unchanged. So it is one of the six enumerated values, or it
  is the descriptor's own \<open>type\<close> value.
\<close>

theorem parse_message_content_type:
  "\<exists>m. parse_message L r name = Inr (Some m) \<and>
       content_type m =
         (case item_content r of
            None \<Rightarrow> JString (asc ''text'')
          | Some s \<Rightarrow>
              if s = [] then JString (asc ''text'')
              else (case json_loads L s of
                      None \<Rightarrow> JString (asc ''text'')
                    | Some c \<Rightarrow>
                        (case spec_descriptor_type c of
                           None \<Rightarrow> JString (asc ''text'')
                         | Some t \<Rightarrow> t))) \<and>
       (content_type m \<in> spec_content_types \<or>
        (\<exists>s c. item_content r = Some s \<and> json_loads L s = Some c \<and>
               spec_descriptor_type c = Some (content_type m)))"
proof -
  obtain m where m: "parse_message L r name = Inr (Some m)"
    "content_type m = parse_content_type L (item_content r)"
    using parse_message_Some by blast
  have t: "JString (asc ''text'') \<in> spec_content_types"
    by (simp add: spec_content_types_def)
  from m(2) have "content_type m \<in> spec_content_types \<or>
        (\<exists>s c. item_content r = Some s \<and> json_loads L s = Some c \<and>
               spec_descriptor_type c = Some (content_type m))"
    using t by (auto simp: parse_content_type_spec split: option.splits if_splits)
  with m show ?thesis by (auto simp: parse_content_type_spec)
qed

theorem parse_message_content_type_witness:
  "\<exists>m. parse_message example_lib sticker_row None = Inr (Some m) \<and>
       content_type m = JString (asc ''sticker'') \<and>
       spec_descriptor_type (the (json_loads example_lib sticker_descriptor)) =
         Some (JString (asc ''sticker''))"
proof -
  have d: "spec_descriptor_type (the (json_loads example_lib sticker_descriptor)) =
      Some (JString (asc ''sticker''))"
    by (simp add: example_loads_simps spec_descriptor_type_def)
  have i: "item_content sticker_row = Some sticker_descriptor"
    by (simp add: sticker_row_def)
  from parse_message_content_type [of example_lib sticker_row None] obtain m where
    "parse_message example_lib sticker_row None = Inr (Some m)"
    "content_type m =
       (case item_content sticker_row of
          None \<Rightarrow> JString (asc ''text'')
        | Some s \<Rightarrow>
            if s = [] then JString (asc ''text'')
            else (case json_loads example_lib s of
                    None \<Rightarrow> JString (asc ''text'')
                  | Some c \<Rightarrow>
                      (case spec_descriptor_type c of
                         None \<Rightarrow> JString (asc ''text'')
                       | Some t \<Rightarrow> t)))"
    by blast
  with d i show ?thesis
    by (simp add: example_loads_simps example_descriptors_not_Nil)
qed

text \<open>
  The claim as stated fails: a descriptor of type \<open>sticker\<close> gives the content type
  \<open>sticker\<close>, which is none of the six values.
\<close>

theorem content_type_enumerated_counterexample:
  "(case parse_message example_lib sticker_row None of
      Inr (Some m) \<Rightarrow>
        content_type m = JString (asc ''sticker'') \<and> content_type m \<notin> spec_content_types
    | _ \<Rightarrow> False)"
  by (simp add: parse_message_def parse_content_type_spec sticker_row_def example_loads_simps
      example_descriptors_not_Nil spec_descriptor_type_def spec_content_types_def)

text \<open>
  C2 (as amended). \<^verbatim>\<open>_parse_message\<close> yields exactly one message for every row, whether
  or not its content descriptor has the received or the sent message shape; a row of
  neither shape gets the content type \<open>text\<close>. The loops of \<^verbatim>\<open>get_contact_messages\<close> and
  \<^verbatim>\<open>get_group_messages\<close> therefore return one message per fetched row, in order.
\<close>

theorem parse_message_one_message:
  "(\<exists>m. parse_message L r name = Inr (Some m) \<and>
        (\<not> spec_matches_shape L r \<longrightarrow> content_type m = JString (asc ''text''))) \<and>
   (\<exists>ms. get_contact_messages L rs name = Inr ms \<and> length ms = length rs \<and>
         list_all2 (\<lambda>r m. parse_message L r name = Inr (Some m)) rs ms) \<and>
   (\<exists>ms. get_group_messages L grs = Inr ms \<and> length ms = length grs \<and>
         list_all2 (\<lambda>g m. parse_message L (fst g) (snd g) = Inr (Some m)) grs ms)"
proof -
  obtain m where m: "parse_message L r name = Inr (Some m)"
    "content_type m = parse_content_type L (item_content r)"
    using parse_message_Some by blast
  then have "\<exists>m. parse_message L r name = Inr (Some m) \<and>
        (\<not> spec_matches_shape L r \<longrightarrow> content_type m = JString (asc ''text''))"
    using not_matches_text [of L r] by auto
  moreover have "\<exists>ms. get_contact_messages L rs name = Inr ms \<and> length ms = length rs \<and>
         list_all2 (\<lambda>r m. parse_message L r name = Inr (Some m)) rs ms"
  proof -
    from get_contact_messages_all [of L rs name] obtain ms where
      ms: "get_contact_messages L rs name = Inr ms"
        "list_all2 (\<lambda>r m. parse_message L r name = Inr (Some m)) rs ms" by blast
    from ms(2) have "length ms = length rs" by (simp add: list_all2_lengthD)
    with ms show ?thesis by blast
  qed
  moreover have "\<exists>ms. get_group_messages L grs = Inr ms \<and> length ms = length grs \<and>
         list_all2 (\<lambda>g m. parse_message L (fst g) (snd g) = Inr (Some m)) grs ms"
  proof -
    from get_group_messages_all [of L grs] obtain ms where
      ms: "get_group_messages L grs = Inr ms"
        "list_all2 (\<lambda>g m. parse_message L (fst g) (snd g) = Inr (Some m)) grs ms" by blast
    from ms(2) have "length ms = length grs" by (simp add: list_all2_lengthD)
    with ms show ?thesis by blast
  qed
  ultimately show ?thesis by blast
qed

theorem parse_message_one_message_witness:
  "\<not> spec_matches_shape example_lib event_row \<and>
   (\<exists>m. parse_message example_lib event_row None = Inr (Some m) \<and>
        content_type m = JString (asc ''text'')) \<and>
   (\<exists>ms. get_contact_messages example_lib [event_row, sticker_row] None = Inr ms \<and>
         length ms = 2) \<and>
   (\<exists>ms. get_group_messages example_lib [(event_row, Some (asc ''alice''))] = Inr ms \<and>
         length ms = 1)"
proof -
  have "\<not> spec_matches_shape example_lib event_row"
    by (simp add: spec_matches_shape_def event_row_def example_loads_simps)
  then show ?thesis
    using parse_message_one_message [of example_lib event_row None "[event_row, sticker_row]"
        "[(event_row, Some (asc ''alice''))]"]
    by auto
qed

text \<open>
  The claim as stated fails: a group event row matches neither shape and is not skipped.
\<close>

theorem parse_message_skip_counterexample:
  "\<not> spec_matches_shape example_lib event_row \<and>
   parse_message example_lib event_row None \<noteq> Inr None \<and>
   (case get_contact_messages example_lib [event_row] None of
      Inr ms \<Rightarrow> length ms = 1
    | Inl e \<Rightarrow> False)"
  by (simp add: spec_matches_shape_def event_row_def example_loads_simps parse_message_def
      ebind_def)

text \<open>
  C5. \<^verbatim>\<open>_parse_message\<close> returns a message for every row, and each malformed input has
  its fallback: an absent or unparsable content descriptor gives the content type
  \<open>text\<close>; an absent, empty or unparsable quote descriptor, or one without a non-empty
  \<open>text\<close>, gives no quote; an absent or empty timestamp gives the empty string; a
  timestamp without the marker \<open>T\<close>, or one that does not parse, is kept as it is.
\<close>

theorem parse_message_never_raises:
  "\<exists>m. parse_message L r name = Inr (Some m) \<and>
       (item_content r = None \<or> (\<exists>s. item_content r = Some s \<and> json_loads L s = None) \<longrightarrow>
          content_type m = JString (asc ''text'')) \<and>
       (quoted_content r = None \<or> quoted_content r = Some [] \<or>
        (\<exists>s. quoted_content r = Some s \<and>
             (json_loads L s = None \<or>
              (\<exists>qc. json_loads L s = Some qc \<and>
                    (\<forall>v. py_get qc (asc ''text'') (JString []) = Inr v \<longrightarrow> \<not> truthy v)))) \<longrightarrow>
          quote m = None) \<and>
       (item_ts r = None \<or> item_ts r = Some [] \<longrightarrow> timestamp m = []) \<and>
       (\<forall>s. item_ts r = Some s \<and>
            (of_char CHR ''T'' \<notin> set s \<or> fromisoformat L (clean s) = None) \<longrightarrow>
          timestamp m = s)"
proof -
  obtain m where m: "parse_message L r name = Inr (Some m)"
    "content_type m = parse_content_type L (item_content r)"
    "quote m = parse_quote L (quoted_content r) (quoted_sent r)"
    "timestamp m = format_timestamp L (item_ts r)"
    using parse_message_Some by blast
  have c: "item_content r = None \<or> (\<exists>s. item_content r = Some s \<and> json_loads L s = None) \<longrightarrow>
          content_type m = JString (asc ''text'')"
    using m(2) by (auto simp: parse_content_type_spec)
  have q: "quoted_content r = None \<or> quoted_content r = Some [] \<or>
        (\<exists>s. quoted_content r = Some s \<and>
             (json_loads L s = None \<or>
              (\<exists>qc. json_loads L s = Some qc \<and>
                    (\<forall>v. py_get qc (asc ''text'') (JString []) = Inr v \<longrightarrow> \<not> truthy v)))) \<longrightarrow>
          quote m = None"
    using m(3) by (auto simp: parse_quote_def quote_try_def ebind_def split: sum.splits)
  have t: "item_ts r = None \<or> item_ts r = Some [] \<longrightarrow> timestamp m = []"
    using m(4) by (auto simp: format_timestamp_def)
  have u: "\<forall>s. item_ts r = Some s \<and>
            (of_char CHR ''T'' \<notin> set s \<or> fromisoformat L (clean s) = None) \<longrightarrow>
          timestamp m = s"
    using m(4) by (auto simp: format_timestamp_def format_timestamp_try_def)
  from m(1) c q t u show ?thesis by blast
qed

theorem parse_message_never_raises_witness:
  "\<exists>m. parse_message example_lib broken_row None = Inr (Some m) \<and>
       content_type m = JString (asc ''text'') \<and> quote m = None \<and>
       timestamp m = asc ''Tuesday''"
proof -
  have f: "fromisoformat example_lib (clean (asc ''Tuesday'')) = None"
    by (simp add: example_lib_def example_fromisoformat_def clean_def replace_def asc_def)
  have c: "\<exists>s. item_content broken_row = Some s \<and> json_loads example_lib s = None"
    by (simp add: broken_row_def example_loads_simps)
  have q: "\<exists>s. quoted_content broken_row = Some s \<and> json_loads example_lib s = None"
    by (simp add: broken_row_def example_loads_simps)
  have t: "item_ts broken_row = Some (asc ''Tuesday'')"
    by (simp add: broken_row_def)
  from parse_message_never_raises [of example_lib broken_row None] c q t f show ?thesis
    by blast
qed

subsection \<open>HTML escaping\<close>

lemma replace_append: "replace c new (xs @ ys) = replace c new xs @ replace c new ys"
  by (simp add: replace_def)

lemma replace_Cons: "replace c new (x # xs) = (if x = c then new else [x]) @ replace c new xs"
  by (simp add: replace_def)

lemma replace_Nil [simp]: "replace c new [] = []"
  by (simp add: replace_def)

lemma replace_absent: "c \<notin> set xs \<Longrightarrow> replace c new xs = xs"
  by (induction xs) (auto simp: replace_def)

lemma escape_html_Nil [simp]: "escape_html [] = []"
  by (simp add: escape_html_def)

lemma escape_html_Cons: "escape_html (c # s) = esc_char c @ escape_html s"
  by (simp add: escape_html_def esc_char_def replace_Cons replace_append asc_def)

lemma escape_html_single_pass: "escape_html s = concat (map esc_char s)"
  by (induction s) (simp_all add: escape_html_Cons)

lemma escape_html_example:
  \<open>escape_html (asc ''<b>&"test"</b>\<newline>line2'') =
     asc ''&lt;b&gt;&amp;&quot;test&quot;&lt;/b&gt;<br>line2''\<close>
  by (simp add: escape_html_single_pass esc_char_def asc_def)

subsection \<open>Date separators\<close>

lemma tracked_date_Nil [simp]: "tracked_date [] = None"
  by (simp add: tracked_date_def)

lemma tracked_date_append:
  "tracked_date (xs @ ys) =
     (case tracked_date ys of None \<Rightarrow> tracked_date xs | Some d \<Rightarrow> Some d)"
  by (simp add: tracked_date_def Let_def)

lemma tracked_date_single:
  "tracked_date [m] = (if msg_date m \<noteq> [] then Some (msg_date m) else None)"
  by (simp add: tracked_date_def)

lemma tracked_from_None [simp]: "tracked_from None ms = tracked_date ms"
  by (simp add: tracked_from_def split: option.splits)

lemma tracked_from_Nil [simp]: "tracked_from cur [] = cur"
  by (simp add: tracked_from_def)

lemma tracked_from_Cons:
  "tracked_from cur (m # ms) =
     tracked_from (if msg_date m \<noteq> [] then Some (msg_date m) else cur) ms"
  using tracked_date_append [of "[m]" ms]
  by (simp add: tracked_from_def tracked_date_single split: option.splits)

lemma grouped_from_None: "grouped_from None sep block ms = grouped starts_run sep block ms"
  by (simp add: grouped_from_def grouped_def starts_run_def)

lemma grouped_from_Nil [simp]: "grouped_from cur sep block [] = []"
  by (simp add: grouped_from_def)

lemma grouped_from_Cons:
  "grouped_from cur sep block (m # ms) =
     (if msg_date m \<noteq> [] \<and> cur \<noteq> Some (msg_date m) then sep (msg_date m) else []) @
     block m @
     grouped_from (if msg_date m \<noteq> [] then Some (msg_date m) else cur) sep block ms"
proof -
  have "[0..<Suc (length ms)] = 0 # [Suc 0..<Suc (length ms)]"
    by (rule upt_conv_Cons) simp
  then have "[0..<length (m # ms)] = 0 # map Suc [0..<length ms]"
    by (simp only: map_Suc_upt length_Cons)
  then show ?thesis
    by (simp add: grouped_from_def tracked_from_Cons o_def cong: if_cong)
qed

lemma txt_step_eq:
  "txt_message L m = Inr b \<Longrightarrow>
   txt_step L (cur, ls) m =
     Inr (if msg_date m \<noteq> [] then Some (msg_date m) else cur,
          ls @ (if msg_date m \<noteq> [] \<and> cur \<noteq> Some (msg_date m) then txt_date_sep (msg_date m)
                else []) @ b)"
  by (auto simp: txt_step_def ebind_def)

lemma txt_loop_grouped:
  "list_all (\<lambda>m. \<not> isl (txt_message L m)) ms \<Longrightarrow>
   txt_loop L (cur, ls) ms =
     Inr (tracked_from cur ms, ls @ grouped_from cur txt_date_sep (block_of (txt_message L)) ms)"
proof (induction ms arbitrary: cur ls)
  case Nil
  show ?case by simp
next
  case (Cons m ms)
  from Cons.prems obtain b where b: "txt_message L m = Inr b"
    by (cases "txt_message L m") auto
  from Cons.prems have rest: "list_all (\<lambda>m. \<not> isl (txt_message L m)) ms" by simp
  show ?case
    using b Cons.IH [OF rest]
    by (simp add: txt_step_eq ebind_def grouped_from_Cons tracked_from_Cons block_of_def)
qed

lemma html_step_eq:
  "html_message L m = Inr b \<Longrightarrow>
   html_step L (cur, h) m =
     Inr (if msg_date m \<noteq> [] then Some (msg_date m) else cur,
          h @ (if msg_date m \<noteq> [] \<and> cur \<noteq> Some (msg_date m) then html_date_sep (msg_date m)
                else []) @ b)"
  by (auto simp: html_step_def ebind_def)

lemma html_loop_grouped:
  "list_all (\<lambda>m. \<not> isl (html_message L m)) ms \<Longrightarrow>
   html_loop L (cur, h) ms =
     Inr (tracked_from cur ms, h @ grouped_from cur html_date_sep (block_of (html_message L)) ms)"
proof (induction ms arbitrary: cur h)
  case Nil
  show ?case by simp
next
  case (Cons m ms)
  from Cons.prems obtain b where b: "html_message L m = Inr b"
    by (cases "html_message L m") auto
  from Cons.prems have rest: "list_all (\<lambda>m. \<not> isl (html_message L m)) ms" by simp
  show ?case
    using b Cons.IH [OF rest]
    by (simp add: html_step_eq ebind_def grouped_from_Cons tracked_from_Cons block_of_def)
qed

text \<open>
  C7 (as amended). The loops of \<^verbatim>\<open>export_txt\<close> and \<^verbatim>\<open>export_html\<close> pass over the
  messages once, left to right, and put a date separator before a message exactly when
  its date (its timestamp up to the first space) is not empty and differs from the date
  of the nearest earlier message that has one, or no earlier message has one. When no
  message raises, the output is the runs of \<open>grouped starts_run\<close>.
\<close>

theorem date_separators:
  "(list_all (\<lambda>m. \<not> isl (txt_message L m)) ms \<longrightarrow>
      txt_loop L (None, ls) ms =
        Inr (tracked_date ms, ls @ grouped starts_run txt_date_sep (block_of (txt_message L)) ms)) \<and>
   (list_all (\<lambda>m. \<not> isl (html_message L m)) ms \<longrightarrow>
      html_loop L (None, h) ms =
        Inr (tracked_date ms, h @ grouped starts_run html_date_sep (block_of (html_message L)) ms))"
  using txt_loop_grouped [of L ms None ls] html_loop_grouped [of L ms None h]
  by (simp add: grouped_from_None)

lemma is_str_iff: "is_str v \<longleftrightarrow> (\<exists>s. v = JString s)"
  by (cases v) simp_all

lemma well_typed_renders:
  assumes "well_typed m"
  shows "\<not> isl (txt_message L m)" "\<not> isl (html_message L m)"
proof -
  from assms obtain s where s: "content_type m = JString s"
    by (auto simp: well_typed_def is_str_iff)
  have q: "\<not> isl (txt_quote L (quote m))" "\<not> isl (html_quote (quote m))"
    using assms
    by (auto simp: well_typed_def is_str_iff txt_quote_def html_quote_def txt_quote_preview_def
        ebind_def Let_def split: option.splits)
  from s q(1) show "\<not> isl (txt_message L m)"
    by (cases "txt_quote L (quote m)")
      (auto simp: txt_message_def icons_get_def ebind_def txt_content_def upper_def)
  from s q(2) show "\<not> isl (html_message L m)"
    by (cases "html_quote (quote m)")
      (auto simp: html_message_def icons_get_def ebind_def html_content_def upper_def)
qed

lemma example_well_typed:
  "well_typed msg_morning" "well_typed msg_later" "well_typed msg_next_day"
  "well_typed msg_undated" "well_typed msg_deleted" "well_typed msg_long_quote"
  by (simp_all add: well_typed_def msg_morning_def msg_later_def msg_next_day_def
      msg_undated_def msg_deleted_def msg_long_quote_def)

lemma example_dates:
  "msg_date msg_morning = asc ''2024-01-01''"
  "msg_date msg_later = asc ''2024-01-01''"
  "msg_date msg_next_day = asc ''2024-01-02''"
  "msg_date msg_undated = []"
  by (simp_all add: msg_date_def msg_morning_def msg_later_def msg_next_day_def
      msg_undated_def asc_def)

theorem date_separators_witness:
  "txt_loop example_lib (None, []) [msg_morning, msg_later, msg_next_day] =
     Inr (Some (asc ''2024-01-02''),
          txt_date_sep (asc ''2024-01-01'') @
          block_of (txt_message example_lib) msg_morning @
          block_of (txt_message example_lib) msg_later @
          txt_date_sep (asc ''2024-01-02'') @
          block_of (txt_message example_lib) msg_next_day) \<and>
   html_loop example_lib (None, []) [msg_morning, msg_later, msg_next_day] =
     Inr (Some (asc ''2024-01-02''),
          html_date_sep (asc ''2024-01-01'') @
          block_of (html_message example_lib) msg_morning @
          block_of (html_message example_lib) msg_later @
          html_date_sep (asc ''2024-01-02'') @
          block_of (html_message example_lib) msg_next_day)"
  using date_separators [of example_lib "[msg_morning, msg_later, msg_next_day]" "[]" "[]"]
  by (simp add: well_typed_renders example_well_typed example_dates grouped_def starts_run_def
      tracked_date_def)

lemma example_txt_blocks:
  "txt_message example_lib msg_morning =
     Inr [box_top @ asc '' [09:00:00] Bob'', box_v @ asc ''  hi'', box_bottom, []]"
  "txt_message example_lib msg_undated =
     Inr [box_top @ asc '' [] Bob'', box_v @ asc ''  when?'', box_bottom, []]"
  "txt_message example_lib msg_next_day =
     Inr [box_top @ asc '' [08:00:00] Bob'',
          box_v @ asc ''  '' @ [0xF0, 0x178, 0x201C, 0xB7] @ asc '' [IMAGE]'', box_bottom, []]"
  by (simp_all add: txt_message_def icons_get_def CONTENT_ICONS_def txt_quote_def
      txt_content_def txt_header_def txt_time_def upper_def ebind_def example_lib_def
      ascii_upper_def msg_morning_def msg_undated_def msg_next_day_def asc_def)

text \<open>
  The claim as stated fails: with the dates \<open>2024-01-01\<close>, none, \<open>2024-01-01\<close> the third
  message's date differs from the date of the message just before it, and no separator
  is put before it; the output is not the runs of \<open>grouped spec_boundary\<close>.
\<close>

theorem date_separators_counterexample:
  "spec_boundary [msg_morning, msg_undated, msg_later] 2 \<and>
   txt_loop example_lib (None, []) [msg_morning, msg_undated, msg_later] =
     Inr (Some (asc ''2024-01-01''),
          txt_date_sep (asc ''2024-01-01'') @
          block_of (txt_message example_lib) msg_morning @
          block_of (txt_message example_lib) msg_undated @
          block_of (txt_message example_lib) msg_later) \<and>
   html_loop example_lib (None, []) [msg_morning, msg_undated, msg_later] =
     Inr (Some (asc ''2024-01-01''),
          html_date_sep (asc ''2024-01-01'') @
          block_of (html_message example_lib) msg_morning @
          block_of (html_message example_lib) msg_undated @
          block_of (html_message example_lib) msg_later) \<and>
   txt_loop example_lib (None, []) [msg_morning, msg_undated, msg_later] \<noteq>
     Inr (Some (asc ''2024-01-01''),
          grouped spec_boundary txt_date_sep (block_of (txt_message example_lib))
            [msg_morning, msg_undated, msg_later])"
proof -
  let ?ms = "[msg_morning, msg_undated, msg_later]"
  have r: "list_all (\<lambda>m. \<not> isl (txt_message example_lib m)) ?ms"
    "list_all (\<lambda>m. \<not> isl (html_message example_lib m)) ?ms"
    by (simp_all add: well_typed_renders example_well_typed)
  have t: "txt_loop example_lib (None, []) ?ms =
     Inr (Some (asc ''2024-01-01''),
          txt_date_sep (asc ''2024-01-01'') @
          block_of (txt_message example_lib) msg_morning @
          block_of (txt_message example_lib) msg_undated @
          block_of (txt_message example_lib) msg_later)"
    unfolding txt_loop_grouped [OF r(1)]
    by (simp add: grouped_from_Cons tracked_from_Cons example_dates)
  have h: "html_loop example_lib (None, []) ?ms =
     Inr (Some (asc ''2024-01-01''),
          html_date_sep (asc ''2024-01-01'') @
          block_of (html_message example_lib) msg_morning @
          block_of (html_message example_lib) msg_undated @
          block_of (html_message example_lib) msg_later)"
    unfolding html_loop_grouped [OF r(2)]
    by (simp add: grouped_from_Cons tracked_from_Cons example_dates)
  have b: "spec_boundary ?ms 2"
    by (simp add: spec_boundary_def example_dates)
  have g: "grouped spec_boundary txt_date_sep (block_of (txt_message example_lib)) ?ms =
      txt_date_sep (asc ''2024-01-01'') @
      block_of (txt_message example_lib) msg_morning @
      txt_date_sep [] @
      block_of (txt_message example_lib) msg_undated @
      txt_date_sep (asc ''2024-01-01'') @
      block_of (txt_message example_lib) msg_later"
    by (simp add: grouped_def spec_boundary_def example_dates numeral_2_eq_2)
  have "txt_date_sep (asc ''2024-01-01'') @
          block_of (txt_message example_lib) msg_morning @
          block_of (txt_message example_lib) msg_undated @
          block_of (txt_message example_lib) msg_later \<noteq>
        grouped spec_boundary txt_date_sep (block_of (txt_message example_lib)) ?ms"
    (is "?A \<noteq> ?B")
  proof
    assume "?A = ?B"
    then have "length ?A = length ?B" by (rule arg_cong)
    then show False unfolding g by (simp add: txt_date_sep_def)
  qed
  then have "txt_loop example_lib (None, []) ?ms \<noteq>
     Inr (Some (asc ''2024-01-01''),
          grouped spec_boundary txt_date_sep (block_of (txt_message example_lib)) ?ms)"
    unfolding t by simp
  with b t h show ?thesis by blast
qed

text \<open>
  C10. A message whose timestamp is empty gets no date separator and leaves the tracked
  date as it is: the turn of the loop appends the message's block only. A message after
  it whose date is the tracked date gets no separator either.
\<close>

theorem empty_timestamp_keeps_run:
  "timestamp m = [] \<longrightarrow>
     txt_step L (cur, ls) m = ebind (txt_message L m) (\<lambda>b. Inr (cur, ls @ b)) \<and>
     html_step L (cur, h) m = ebind (html_message L m) (\<lambda>b. Inr (cur, h @ b)) \<and>
     (msg_date n = d \<longrightarrow>
        txt_loop L (Some d, ls) [m, n] =
          ebind (txt_message L m) (\<lambda>b. ebind (txt_message L n) (\<lambda>c. Inr (Some d, ls @ b @ c))) \<and>
        html_loop L (Some d, h) [m, n] =
          ebind (html_message L m) (\<lambda>b. ebind (html_message L n) (\<lambda>c. Inr (Some d, h @ b @ c))))"
  by (auto simp: txt_step_def html_step_def msg_date_def ebind_def split: sum.splits)

theorem empty_timestamp_keeps_run_witness:
  "timestamp msg_undated = [] \<and> msg_date msg_later = asc ''2024-01-01'' \<and>
   txt_step example_lib (Some (asc ''2024-01-01''), []) msg_undated =
     Inr (Some (asc ''2024-01-01''),
          [box_top @ asc '' [] Bob'', box_v @ asc ''  when?'', box_bottom, []]) \<and>
   txt_loop example_lib (Some (asc ''2024-01-01''), []) [msg_undated, msg_later] =
     Inr (Some (asc ''2024-01-01''),
          block_of (txt_message example_lib) msg_undated @
          block_of (txt_message example_lib) msg_later) \<and>
   html_loop example_lib (Some (asc ''2024-01-01''), []) [msg_undated, msg_later] =
     Inr (Some (asc ''2024-01-01''),
          block_of (html_message example_lib) msg_undated @
          block_of (html_message example_lib) msg_later)"
proof -
  have u: "timestamp msg_undated = []" by (simp add: msg_undated_def)
  obtain b c where bc: "txt_message example_lib msg_undated = Inr b"
    "txt_message example_lib msg_later = Inr c"
    using well_typed_renders(1) [OF example_well_typed(4), of example_lib]
      well_typed_renders(1) [OF example_well_typed(2), of example_lib]
    by (metis isl_def sum.exhaust_sel sum.collapse(2))
  obtain b' c' where bc': "html_message example_lib msg_undated = Inr b'"
    "html_message example_lib msg_later = Inr c'"
    using well_typed_renders(2) [OF example_well_typed(4), of example_lib]
      well_typed_renders(2) [OF example_well_typed(2), of example_lib]
    by (metis isl_def sum.exhaust_sel sum.collapse(2))
  from empty_timestamp_keeps_run [of msg_undated example_lib "Some (asc ''2024-01-01'')" "[]"
      "[]" msg_later "asc ''2024-01-01''"] u bc bc'
  show ?thesis
    by (simp add: example_dates example_txt_blocks ebind_def block_of_def
        del: txt_loop.simps html_loop.simps)
qed

subsection \<open>The JSON document\<close>































































subsection \<open>Deleted messages and quotes\<close>

lemma ebind_simps [simp]: "ebind (Inr x) f = f x" "ebind (Inl e) f = Inl e"
  by (simp_all add: ebind_def)

text \<open>
  C4 (as amended). For a deleted message, \<^verbatim>\<open>export_txt\<close> and \<^verbatim>\<open>export_html\<close> write the
  header, the quote block, and the fixed marker in place of the body; the output does not
  depend on the text, and the quote block is the one a message that is not deleted gets.
\<close>

theorem deleted_message_rendering:
  \<open>deleted m \<longrightarrow>
     txt_message L m =
       ebind (icons_get (content_type m) []) (\<lambda>icon.
       ebind (txt_quote L (quote m)) (\<lambda>q.
         Inr ([txt_header m] @ q @ [box_v @ asc ''  [Message deleted]'', box_bottom, []]))) \<and>
     html_message L m =
       ebind (html_quote (quote m)) (\<lambda>q.
         Inr (html_header m @ q @
              asc ''                <div class="content deleted">[Message deleted]</div>\<newline>'' @
              asc ''            </div>\<newline>'')) \<and>
     txt_message L (m\<lparr>msg_text := t\<rparr>) = txt_message L m \<and>
     html_message L (m\<lparr>msg_text := t\<rparr>) = html_message L m \<and>
     txt_message L (m\<lparr>deleted := False\<rparr>) =
       ebind (icons_get (content_type m) []) (\<lambda>icon.
       ebind (txt_quote L (quote m)) (\<lambda>q.
       ebind (txt_content L (m\<lparr>deleted := False\<rparr>) icon) (\<lambda>c.
         Inr ([txt_header m] @ q @ c @ [box_bottom, []])))) \<and>
     html_message L (m\<lparr>deleted := False\<rparr>) =
       ebind (html_quote (quote m)) (\<lambda>q.
       ebind (html_content L (m\<lparr>deleted := False\<rparr>)) (\<lambda>c.
         Inr (html_header m @ q @ c @ asc ''            </div>\<newline>'')))\<close>
  by (simp add: txt_message_def html_message_def txt_content_def html_content_def
      txt_header_def html_header_def txt_time_def html_time_def)

lemma example_deleted_quote:
  \<open>txt_quote L (quote msg_deleted) =
     Inr [box_v @ asc ''  '' @ reply_arrow @ asc '' Reply to THEM: "see you"'']\<close>
  \<open>html_quote (quote msg_deleted) =
     Inr (asc ''                <div class="quote">\<newline>'' @
          asc ''                    <div class="quote-sender">'' @ quote_arrow @
            asc '' THEM</div>\<newline>'' @
          asc ''                    <div class="quote-text">see you</div>\<newline>'' @
          asc ''                </div>\<newline>'')\<close>
  by (simp_all add: txt_quote_def html_quote_def txt_quote_preview_def ebind_def
      msg_deleted_def escape_html_single_pass esc_char_def asc_def)

theorem deleted_message_rendering_witness:
  \<open>deleted msg_deleted \<and> msg_text msg_deleted = asc ''secret'' \<and>
   txt_message example_lib msg_deleted =
     Inr [txt_header msg_deleted,
          box_v @ asc ''  '' @ reply_arrow @ asc '' Reply to THEM: "see you"'',
          box_v @ asc ''  [Message deleted]'', box_bottom, []] \<and>
   html_message example_lib msg_deleted =
     Inr (html_header msg_deleted @
          asc ''                <div class="quote">\<newline>'' @
          asc ''                    <div class="quote-sender">'' @ quote_arrow @
            asc '' THEM</div>\<newline>'' @
          asc ''                    <div class="quote-text">see you</div>\<newline>'' @
          asc ''                </div>\<newline>'' @
          asc ''                <div class="content deleted">[Message deleted]</div>\<newline>'' @
          asc ''            </div>\<newline>'')\<close>
proof -
  have d: "deleted msg_deleted" "msg_text msg_deleted = asc ''secret''"
    "icons_get (content_type msg_deleted) [] = Inr []"
    by (simp_all add: msg_deleted_def icons_get_def CONTENT_ICONS_def)
  from deleted_message_rendering [of msg_deleted example_lib] d show ?thesis
    by (simp add: example_deleted_quote ebind_def)
qed

text \<open>
  The claim as stated fails for \<^verbatim>\<open>export_json\<close>, which writes a deleted message with its
  text.
\<close>

theorem deleted_text_in_json_counterexample:
  "deleted msg_deleted \<and>
   export_json_data example_datetime [msg_deleted] (asc ''Bob'') =
     JObject
       [(asc ''meta'',
           JObject
             [(asc ''chat_name'', JString (asc ''Bob'')),
              (asc ''exported_at'', JString (isoformat example_datetime)),
              (asc ''message_count'', JInt 1),
              (asc ''tool'', JString (asc ''SimpleDB''))]),
        (asc ''messages'',
           JArray
             [JObject
                [(asc ''id'', JInt 5),
                 (asc ''timestamp'', JString (asc ''2024-01-02 08:05:00'')),
                 (asc ''timestamp_raw'', JString (asc ''2024-01-02T08:05:00Z'')),
                 (asc ''sent'', JBool True),
                 (asc ''sender'', JString (asc ''ME'')),
                 (asc ''text'', JString (asc ''secret'')),
                 (asc ''deleted'', JBool True),
                 (asc ''edited'', JBool False),
                 (asc ''content_type'', JString (asc ''text'')),
                 (asc ''quote'',
                    JObject [(asc ''text'', JString (asc ''see you'')),
                             (asc ''sent_by_me'', JBool False)])]])]"
  by (simp add: export_json_data_def message_json_def quote_json_def msg_deleted_def)



subsection \<open>What the HTML document escapes\<close>

text \<open>
  C3. \<^verbatim>\<open>export_html\<close> escapes the text of a message and the text of a quote, and
  nothing else: the sender and the chat name go into the document as they are.
\<close>

theorem html_sender_not_escaped:
  \<open>html_message example_lib msg_markup_sender =
     Inr (asc ''            <div class="msg received">\<newline>'' @
          asc ''                <div class="msg-header">\<newline>'' @
          asc ''                    <span class="sender"><b>Eve</b></span>\<newline>'' @
          asc ''                    <span><span class="time">08:15:00</span></span>\<newline>'' @
          asc ''                </div>\<newline>'' @
          asc ''                <div class="content">&lt;b&gt;hi&lt;/b&gt;</div>\<newline>'' @
          asc ''            </div>\<newline>'') \<and>
   escape_html (sender msg_markup_sender) = asc ''&lt;b&gt;Eve&lt;/b&gt;'' \<and>
   html_head example_datetime [] (asc ''<i>'') =
     html_head_title @ asc ''<i>'' @ html_head_style @ asc ''<i>'' @ html_head_meta @
     asc ''2024-01-01 09:00:00'' @ html_head_count @ asc ''0'' @ html_head_chat\<close>
proof -
  have \<open>html_message example_lib msg_markup_sender =
     Inr (asc ''            <div class="msg received">\<newline>'' @
          asc ''                <div class="msg-header">\<newline>'' @
          asc ''                    <span class="sender"><b>Eve</b></span>\<newline>'' @
          asc ''                    <span><span class="time">08:15:00</span></span>\<newline>'' @
          asc ''                </div>\<newline>'' @
          asc ''                <div class="content">&lt;b&gt;hi&lt;/b&gt;</div>\<newline>'' @
          asc ''            </div>\<newline>'')\<close>
    by (simp add: html_message_def html_quote_def html_content_def html_header_def
        html_time_def ebind_def msg_markup_sender_def escape_html_single_pass esc_char_def
        asc_def)
  moreover have "escape_html (sender msg_markup_sender) = asc ''&lt;b&gt;Eve&lt;/b&gt;''"
    by (simp add: msg_markup_sender_def escape_html_single_pass esc_char_def asc_def)
  moreover have "html_head example_datetime [] (asc ''<i>'') =
     html_head_title @ asc ''<i>'' @ html_head_style @ asc ''<i>'' @ html_head_meta @
     asc ''2024-01-01 09:00:00'' @ html_head_count @ asc ''0'' @ html_head_chat"
    by (simp add: html_head_def strftime_def example_datetime_def zpad_def str_nat.simps asc_def)
  ultimately show ?thesis by blast
qed

end
